theory Spec2Isabelle
  imports Main "HOL-Library.Word"
begin

unbundle bit_operations_syntax

section \<open>Machine types and byte order\<close>

text \<open>
  \<^verbatim>\<open>__u8\<close> and the 16-bit quantities of \<^verbatim>\<open>arp.c\<close>. A field of type \<^verbatim>\<open>__be16\<close> is held
  in the structs below as the 16-bit integer the CPU reads from it; which two bytes of memory
  that integer occupies depends on the byte order of the host, a parameter of the model.
\<close>

type_synonym u8 = "8 word"
type_synonym u16 = "16 word"

datatype endian = LittleEndian | BigEndian

definition swab16 :: "u16 \<Rightarrow> u16" where
  "swab16 x = push_bit 8 x OR drop_bit 8 x"

text \<open>
  \<^verbatim>\<open>__cpu_to_be16\<close> and \<^verbatim>\<open>__be16_to_cpu\<close> of \<^verbatim>\<open><linux/byteorder/*.h>\<close>: a byte swap on a
  little-endian host, the identity on a big-endian one.
\<close>

definition cpu_to_be16 :: "endian \<Rightarrow> u16 \<Rightarrow> u16" where
  "cpu_to_be16 e x = (case e of LittleEndian \<Rightarrow> swab16 x | BigEndian \<Rightarrow> x)"

definition be16_to_cpu :: "endian \<Rightarrow> u16 \<Rightarrow> u16" where
  "be16_to_cpu e x = (case e of LittleEndian \<Rightarrow> swab16 x | BigEndian \<Rightarrow> x)"

text \<open>The two bytes a 16-bit integer occupies in memory, and the integer two bytes hold.\<close>

definition store_u16 :: "endian \<Rightarrow> u16 \<Rightarrow> u8 list" where
  "store_u16 e x = (case e of
       LittleEndian \<Rightarrow> [ucast x, ucast (drop_bit 8 x)]
     | BigEndian \<Rightarrow> [ucast (drop_bit 8 x), ucast x])"

definition load_u16 :: "endian \<Rightarrow> u8 \<Rightarrow> u8 \<Rightarrow> u16" where
  "load_u16 e b0 b1 = (case e of
       LittleEndian \<Rightarrow> ucast b0 OR push_bit 8 (ucast b1)
     | BigEndian \<Rightarrow> push_bit 8 (ucast b0) OR ucast b1)"

text \<open>\<^verbatim>\<open>memcpy(dst, src, n)\<close> and \<^verbatim>\<open>memset(dst, c, n)\<close> on arrays held as lists.\<close>

definition memcpy :: "u8 list \<Rightarrow> u8 list \<Rightarrow> nat \<Rightarrow> u8 list" where
  "memcpy dst src n = take n src @ drop n dst"

definition memset :: "u8 list \<Rightarrow> u8 \<Rightarrow> nat \<Rightarrow> u8 list" where
  "memset dst c n = replicate n c @ drop n dst"

section \<open>Constants\<close>

text \<open>
  \<^verbatim>\<open>INET_ADDR_LEN\<close>, \<^verbatim>\<open>DEVICE_IP\<close>, \<^verbatim>\<open>TARGET_IP\<close> and \<^verbatim>\<open>MODE\<close> are defined in \<^verbatim>\<open>arp.c\<close>;
  the others are the values of \<^verbatim>\<open><linux/if_ether.h>\<close> and \<^verbatim>\<open><linux/if_arp.h>\<close>.
\<close>

definition INET_ADDR_LEN :: nat where "INET_ADDR_LEN = 4"
definition ETHER_ADDR_LEN :: nat where "ETHER_ADDR_LEN = 6"

definition ETH_P_802_3 :: u16 where "ETH_P_802_3 = 0x0001"
definition ETH_P_IP :: u16 where "ETH_P_IP = 0x0800"
definition ETH_P_ARP :: u16 where "ETH_P_ARP = 0x0806"
definition ARPHRD_ETHER :: u16 where "ARPHRD_ETHER = 1"
definition ARPOP_REQUEST :: u16 where "ARPOP_REQUEST = 1"
definition ARPOP_REPLY :: u16 where "ARPOP_REPLY = 2"

definition DEVICE_IP :: string where "DEVICE_IP = ''172.16.60.250''"
definition TARGET_IP :: string where "TARGET_IP = ''172.16.60.157''"

definition MODE :: int where "MODE = 0"

section \<open>The frame: \<^verbatim>\<open>struct ethhdr\<close>, \<^verbatim>\<open>struct arp_hdr\<close>, \<^verbatim>\<open>struct arp_packet\<close>\<close>

text \<open>
  Modelled from the spec: \<^verbatim>\<open>struct ethhdr\<close> is declared in \<^verbatim>\<open><linux/if_ether.h>\<close>, not in
  \<^verbatim>\<open>arp.c\<close>. The spec gives it as destination hardware address (6 bytes), source hardware
  address (6 bytes), protocol (2 bytes, big-endian), without padding.
\<close>

record ethhdr =
  h_dest :: "u8 list"
  h_source :: "u8 list"
  h_proto :: u16

record arp_hdr =
  arp_hd :: u16
  arp_pr :: u16
  arp_hdl :: u8
  arp_prl :: u8
  arp_op :: u16
  arp_sha :: "u8 list"
  arp_spa :: "u8 list"
  arp_dha :: "u8 list"
  arp_dpa :: "u8 list"

record arp_packet =
  ethhdr :: ethhdr
  arphdr :: arp_hdr

text \<open>The array members have their declared sizes.\<close>

definition wf_ethhdr :: "ethhdr \<Rightarrow> bool" where
  "wf_ethhdr h \<longleftrightarrow> length (h_dest h) = ETHER_ADDR_LEN \<and> length (h_source h) = ETHER_ADDR_LEN"

definition wf_arp_hdr :: "arp_hdr \<Rightarrow> bool" where
  "wf_arp_hdr a \<longleftrightarrow>
     length (arp_sha a) = ETHER_ADDR_LEN \<and> length (arp_spa a) = INET_ADDR_LEN \<and>
     length (arp_dha a) = ETHER_ADDR_LEN \<and> length (arp_dpa a) = INET_ADDR_LEN"

definition wf_arp_packet :: "arp_packet \<Rightarrow> bool" where
  "wf_arp_packet p \<longleftrightarrow> wf_ethhdr (ethhdr p) \<and> wf_arp_hdr (arphdr p)"

text \<open>
  The bytes of a packed struct in memory, member after member: what
  \<^verbatim>\<open>write(tapfd, &packet, sizeof(struct arp_packet))\<close> hands to the device.
\<close>

definition ethhdr_bytes :: "endian \<Rightarrow> ethhdr \<Rightarrow> u8 list" where
  "ethhdr_bytes e h = h_dest h @ h_source h @ store_u16 e (h_proto h)"

definition arp_hdr_bytes :: "endian \<Rightarrow> arp_hdr \<Rightarrow> u8 list" where
  "arp_hdr_bytes e a =
     store_u16 e (arp_hd a) @ store_u16 e (arp_pr a) @ [arp_hdl a, arp_prl a] @
     store_u16 e (arp_op a) @ arp_sha a @ arp_spa a @ arp_dha a @ arp_dpa a"

definition arp_packet_bytes :: "endian \<Rightarrow> arp_packet \<Rightarrow> u8 list" where
  "arp_packet_bytes e p = ethhdr_bytes e (ethhdr p) @ arp_hdr_bytes e (arphdr p)"

text \<open>
  The struct a pointer cast reads out of a buffer: \<^verbatim>\<open>(struct ethhdr *)pckt_buf\<close>,
  \<^verbatim>\<open>(struct arp_packet *)pckt_buf\<close>. No length is consulted; the buffers of \<^verbatim>\<open>arp.c\<close> have
  1500 bytes.
\<close>

definition ethhdr_of :: "endian \<Rightarrow> u8 list \<Rightarrow> ethhdr" where
  "ethhdr_of e b =
     \<lparr>h_dest = take 6 b, h_source = take 6 (drop 6 b), h_proto = load_u16 e (b ! 12) (b ! 13)\<rparr>"

definition arp_hdr_of :: "endian \<Rightarrow> u8 list \<Rightarrow> arp_hdr" where
  "arp_hdr_of e b =
     \<lparr>arp_hd = load_u16 e (b ! 0) (b ! 1), arp_pr = load_u16 e (b ! 2) (b ! 3),
      arp_hdl = b ! 4, arp_prl = b ! 5, arp_op = load_u16 e (b ! 6) (b ! 7),
      arp_sha = take 6 (drop 8 b), arp_spa = take 4 (drop 14 b),
      arp_dha = take 6 (drop 18 b), arp_dpa = take 4 (drop 24 b)\<rparr>"

definition arp_packet_of :: "endian \<Rightarrow> u8 list \<Rightarrow> arp_packet" where
  "arp_packet_of e b = \<lparr>ethhdr = ethhdr_of e b, arphdr = arp_hdr_of e (drop 14 b)\<rparr>"

section \<open>The process and its device\<close>

text \<open>
  What the process has done so far: the \<^verbatim>\<open>printf\<close> calls (format and arguments), the tags
  given to \<^verbatim>\<open>perror\<close>, the buffers given to \<^verbatim>\<open>write\<close> on the tap descriptor (also the one
  of a call that fails), the counter \<^verbatim>\<open>static int num\<close> of \<^verbatim>\<open>wait_n_reply\<close>, and whether it
  runs, is blocked in \<^verbatim>\<open>read\<close> with nothing left to receive, or has exited. The counter is
  an unbounded integer here; in C it overflows after \<open>2\<^sup>3\<^sup>1 - 1\<close> exchanges.
\<close>

datatype printf_arg = ArgInt int | ArgStr string

datatype proc_status = Running | Waiting | Exited int

record proc =
  stdout :: "(string \<times> printf_arg list) list"
  stderr :: "string list"
  tx :: "u8 list list"
  num :: int
  status :: proc_status

definition proc_init :: proc where
  "proc_init = \<lparr>stdout = [], stderr = [], tx = [], num = 0, status = Running\<rparr>"

text \<open>
  One \<^verbatim>\<open>read(tapfd, pckt_buf, sizeof(pckt_buf))\<close>: the value it returns (the number of bytes
  received, negative on error) and the 1500 bytes of \<^verbatim>\<open>pckt_buf\<close> after the call. The buffer
  is a fresh local of each iteration, so beyond the bytes received its content is whatever
  the stack held.
\<close>

datatype tap_read = ReadRet (read_ret: int) (read_buf: "u8 list")

text \<open>
  Whether a received buffer passes the filter of lines 111 and 187, that is, whether
  \<^verbatim>\<open>((struct ethhdr *)pckt_buf)->h_proto != __cpu_to_be16(ETH_P_ARP)\<close> is false.
\<close>

definition is_arp :: "endian \<Rightarrow> tap_read \<Rightarrow> bool" where
  "is_arp e r \<longleftrightarrow> h_proto (ethhdr_of e (read_buf r)) = cpu_to_be16 e ETH_P_ARP"

definition printf :: "string \<Rightarrow> printf_arg list \<Rightarrow> proc \<Rightarrow> proc" where
  "printf fmt args s = s\<lparr>stdout := stdout s @ [(fmt, args)]\<rparr>"

text \<open>The body of the macro \<^verbatim>\<open>ASSERT\<close> when its condition holds: \<^verbatim>\<open>perror(tag); exit(1);\<close>\<close>

definition die :: "string \<Rightarrow> proc \<Rightarrow> proc" where
  "die tag s = s\<lparr>stderr := stderr s @ [tag], status := Exited 1\<rparr>"

definition write_tap :: "u8 list \<Rightarrow> proc \<Rightarrow> proc" where
  "write_tap bytes s = s\<lparr>tx := tx s @ [bytes]\<rparr>"

section \<open>Rendering\<close>

definition arg_u8 :: "u8 \<Rightarrow> printf_arg" where
  "arg_u8 b = ArgInt (uint b)"

definition arg_u16 :: "u16 \<Rightarrow> printf_arg" where
  "arg_u16 w = ArgInt (uint w)"

definition print_mac :: "u8 list \<Rightarrow> proc \<Rightarrow> proc" where
  "print_mac mac s =
     printf ''MAC Address: %02x:%02x:%02x:%02x:%02x:%02x\<newline>''
       [arg_u8 (mac ! 0), arg_u8 (mac ! 1), arg_u8 (mac ! 2), arg_u8 (mac ! 3),
        arg_u8 (mac ! 4), arg_u8 (mac ! 5)] s"

definition print_eth_hdr :: "endian \<Rightarrow> ethhdr \<Rightarrow> proc \<Rightarrow> proc" where
  "print_eth_hdr e packet s =
     (let s = printf ''Ethernet type: 0x%x\<newline>'' [arg_u16 (be16_to_cpu e (h_proto packet))] s;
          s = printf ''Destination '' [] s;
          s = print_mac (h_dest packet) s;
          s = printf ''Source '' [] s
      in print_mac (h_source packet) s)"

text \<open>\<^verbatim>\<open>inet_ntop(AF_INET, ...)\<close> of the C library: four octets in decimal, separated by dots.\<close>

definition dec_digit :: "nat \<Rightarrow> char" where
  "dec_digit d = ''0123456789'' ! d"

definition dec_u8 :: "u8 \<Rightarrow> string" where
  "dec_u8 b =
     (let n = unat b
      in (if 100 \<le> n then [dec_digit (n div 100)] else []) @
         (if 10 \<le> n then [dec_digit (n div 10 mod 10)] else []) @
         [dec_digit (n mod 10)])"

definition inet_ntop :: "u8 list \<Rightarrow> string" where
  "inet_ntop a = dec_u8 (a ! 0) @ ''.'' @ dec_u8 (a ! 1) @ ''.'' @ dec_u8 (a ! 2) @ ''.'' @ dec_u8 (a ! 3)"

definition print_arp_hdr :: "endian \<Rightarrow> arp_hdr \<Rightarrow> proc \<Rightarrow> proc" where
  "print_arp_hdr e packet s =
     (let s = printf ''Hardware address space: 0x%x\<newline>'' [arg_u16 (be16_to_cpu e (arp_hd packet))] s;
          s = printf ''Protocol address space: 0x%x\<newline>'' [arg_u16 (be16_to_cpu e (arp_pr packet))] s;
          s = printf ''Opcode 0x%x\<newline>'' [arg_u16 (be16_to_cpu e (arp_op packet))] s;
          s = printf ''Src IP:%s'' [ArgStr (inet_ntop (arp_spa packet))] s;
          s = printf ''\<newline>Dst IP:%s'' [ArgStr (inet_ntop (arp_dpa packet))] s
      in printf ''\<newline>'' [] s)"

definition print_arp_packet :: "endian \<Rightarrow> arp_packet \<Rightarrow> proc \<Rightarrow> proc" where
  "print_arp_packet e p s =
     (let s = print_eth_hdr e (ethhdr p) s;
          s = print_arp_hdr e (arphdr p) s
      in printf ''\<newline>'' [] s)"

section \<open>The responder: \<^verbatim>\<open>wait_n_reply\<close>\<close>

text \<open>
  Lines 120 to 141: the reply is a copy of the request in which the two Ethernet addresses,
  the opcode and the four ARP addresses are overwritten. The helper pointers
  \<^verbatim>\<open>sender_mac\<close>, \<^verbatim>\<open>sender_ip\<close> and \<^verbatim>\<open>recv_ip\<close> point into the request, which is not written.
\<close>

definition mk_rep_packet :: "endian \<Rightarrow> u8 list \<Rightarrow> arp_packet \<Rightarrow> arp_packet" where
  "mk_rep_packet e mac req_packet =
     (let rep_packet = req_packet;
          sender_mac = arp_sha (arphdr req_packet);
          sender_ip = arp_spa (arphdr req_packet);
          recv_mac = mac;
          recv_ip = arp_dpa (arphdr req_packet);
          eh = ethhdr rep_packet;
          eh = eh\<lparr>h_source := memcpy (h_source eh) recv_mac ETHER_ADDR_LEN\<rparr>;
          eh = eh\<lparr>h_dest := memcpy (h_dest eh) sender_mac ETHER_ADDR_LEN\<rparr>;
          ah = arphdr rep_packet;
          ah = ah\<lparr>arp_op := cpu_to_be16 e ARPOP_REPLY\<rparr>;
          ah = ah\<lparr>arp_sha := memcpy (arp_sha ah) recv_mac ETHER_ADDR_LEN\<rparr>;
          ah = ah\<lparr>arp_spa := memcpy (arp_spa ah) recv_ip INET_ADDR_LEN\<rparr>;
          ah = ah\<lparr>arp_dha := memcpy (arp_dha ah) sender_mac ETHER_ADDR_LEN\<rparr>;
          ah = ah\<lparr>arp_dpa := memcpy (arp_dpa ah) sender_ip INET_ADDR_LEN\<rparr>
      in rep_packet\<lparr>ethhdr := eh, arphdr := ah\<rparr>)"

text \<open>
  One pass through the body of \<^verbatim>\<open>while (1)\<close>, given what \<^verbatim>\<open>read\<close> delivers. \<^verbatim>\<open>wfail k\<close>
  tells whether the \<open>k\<close>-th \<^verbatim>\<open>write\<close> of the process (counted from 0) returns a negative value.
\<close>

definition wait_n_reply_iter ::
    "endian \<Rightarrow> (nat \<Rightarrow> bool) \<Rightarrow> u8 list \<Rightarrow> tap_read \<Rightarrow> proc \<Rightarrow> proc" where
  "wait_n_reply_iter e wfail mac r s =
     (if read_ret r < 0 then die ''read packet'' s
      else
        let pckt_buf = read_buf r
        in if h_proto (ethhdr_of e pckt_buf) \<noteq> cpu_to_be16 e ETH_P_ARP then s
           else
             let req_packet = arp_packet_of e pckt_buf;
                 s = printf ''Packet ARP Request #%d.1\<newline>'' [ArgInt (num s)] s;
                 s = print_arp_packet e req_packet s;
                 rep_packet = mk_rep_packet e mac req_packet;
                 s = printf ''Packet ARP Reply #%d.2\<newline>'' [ArgInt (num s)] s;
                 s = s\<lparr>num := num s + 1\<rparr>;
                 s = print_arp_packet e rep_packet s;
                 k = length (tx s);
                 s = write_tap (arp_packet_bytes e rep_packet) s
             in if wfail k then die ''write packet'' s else s)"

fun wait_n_reply_loop ::
    "endian \<Rightarrow> (nat \<Rightarrow> bool) \<Rightarrow> u8 list \<Rightarrow> tap_read list \<Rightarrow> proc \<Rightarrow> proc" where
  "wait_n_reply_loop e wfail mac [] s = s\<lparr>status := Waiting\<rparr>"
| "wait_n_reply_loop e wfail mac (r # rs) s =
     (let s' = wait_n_reply_iter e wfail mac r s
      in if status s' = Running then wait_n_reply_loop e wfail mac rs s' else s')"

definition wait_n_reply ::
    "endian \<Rightarrow> (nat \<Rightarrow> bool) \<Rightarrow> u8 list \<Rightarrow> tap_read list \<Rightarrow> proc \<Rightarrow> proc" where
  "wait_n_reply e wfail mac rs s =
     (let s = printf ''Wait and reply mode!\<newline>This mode sends back an ARP reply to any request!\<newline>'' [] s
      in wait_n_reply_loop e wfail mac rs s)"

section \<open>The requester: \<^verbatim>\<open>req_n_wait\<close>\<close>

text \<open>
  \<^verbatim>\<open>inet_pton(AF_INET, src, dst)\<close> of the C library: it accepts exactly four decimal octets of
  value at most 255, without a leading zero, separated by single dots, and then stores the
  four bytes; on any other text it stores nothing. \<^verbatim>\<open>arp.c\<close> ignores the value it returns.
\<close>

definition is_dec_digit :: "char \<Rightarrow> bool" where
  "is_dec_digit c \<longleftrightarrow> (48::nat) \<le> of_char c \<and> of_char c \<le> (57::nat)"

definition digit_val :: "char \<Rightarrow> nat" where
  "digit_val c = of_char c - (48::nat)"

fun inet_pton4 :: "string \<Rightarrow> bool \<Rightarrow> nat \<Rightarrow> nat list \<Rightarrow> u8 list option" where
  "inet_pton4 [] saw_digit cur octets =
     (if saw_digit \<and> length octets = 3 then Some (map of_nat (octets @ [cur])) else None)"
| "inet_pton4 (ch # src) saw_digit cur octets =
     (if is_dec_digit ch then
        (let new = cur * 10 + digit_val ch
         in if saw_digit \<and> cur = 0 then None
            else if 255 < new then None
            else inet_pton4 src True new octets)
      else if ch = CHR ''.'' \<and> saw_digit then
        (if length octets = 3 then None else inet_pton4 src False 0 (octets @ [cur]))
      else None)"

definition inet_pton :: "string \<Rightarrow> u8 list \<Rightarrow> u8 list" where
  "inet_pton src dst = (case inet_pton4 src False 0 [] of None \<Rightarrow> dst | Some tmp \<Rightarrow> memcpy dst tmp 4)"

text \<open>
  Lines 155 to 175: the request is built in the local \<^verbatim>\<open>req_packet\<close>, which is not
  initialised; \<open>uninit\<close> is what it holds on entry.
\<close>

definition mk_req_packet :: "endian \<Rightarrow> u8 list \<Rightarrow> arp_packet \<Rightarrow> arp_packet" where
  "mk_req_packet e mac uninit =
     (let req_packet = uninit;
          eh = ethhdr req_packet;
          eh = eh\<lparr>h_proto := cpu_to_be16 e ETH_P_ARP\<rparr>;
          eh = eh\<lparr>h_source := memcpy (h_source eh) mac ETHER_ADDR_LEN\<rparr>;
          eh = eh\<lparr>h_dest := memset (h_dest eh) 0xff ETHER_ADDR_LEN\<rparr>;
          ah = arphdr req_packet;
          ah = ah\<lparr>arp_hd := cpu_to_be16 e ETH_P_802_3\<rparr>;
          ah = ah\<lparr>arp_pr := cpu_to_be16 e ETH_P_IP\<rparr>;
          ah = ah\<lparr>arp_hdl := of_nat ETHER_ADDR_LEN\<rparr>;
          ah = ah\<lparr>arp_prl := of_nat INET_ADDR_LEN\<rparr>;
          ah = ah\<lparr>arp_op := cpu_to_be16 e ARPOP_REQUEST\<rparr>;
          ah = ah\<lparr>arp_sha := memcpy (arp_sha ah) mac ETHER_ADDR_LEN\<rparr>;
          ah = ah\<lparr>arp_spa := inet_pton DEVICE_IP (arp_spa ah)\<rparr>;
          ah = ah\<lparr>arp_dha := memset (arp_dha ah) 0xff ETHER_ADDR_LEN\<rparr>;
          ah = ah\<lparr>arp_dpa := inet_pton TARGET_IP (arp_dpa ah)\<rparr>
      in req_packet\<lparr>ethhdr := eh, arphdr := ah\<rparr>)"

text \<open>
  The loop of lines 182 to 194. It returns with the process \<open>Running\<close> when it leaves by
  \<^verbatim>\<open>break\<close>.
\<close>

fun req_n_wait_loop :: "endian \<Rightarrow> tap_read list \<Rightarrow> proc \<Rightarrow> proc" where
  "req_n_wait_loop e [] s = s\<lparr>status := Waiting\<rparr>"
| "req_n_wait_loop e (r # rs) s =
     (if read_ret r < 0 then die ''read packet'' s
      else
        let pckt_buf = read_buf r
        in if h_proto (ethhdr_of e pckt_buf) \<noteq> cpu_to_be16 e ETH_P_ARP
           then req_n_wait_loop e rs s
           else
             let rep_packet = arp_packet_of e pckt_buf;
                 s = printf ''Packet ARP Reply 0.2\<newline>'' [] s
             in print_arp_packet e rep_packet s)"

definition req_n_wait ::
    "endian \<Rightarrow> (nat \<Rightarrow> bool) \<Rightarrow> u8 list \<Rightarrow> arp_packet \<Rightarrow> tap_read list \<Rightarrow> proc \<Rightarrow> proc" where
  "req_n_wait e wfail mac uninit rs s =
     (let s = printf ''Request and wait mode!\<newline>'' [] s;
          s = printf ''This mode sends an ARP request to retrieve MAC of an arbitrary device!\<newline>'' [] s;
          req_packet = mk_req_packet e mac uninit;
          s = printf ''Packet ARP Request 0.1\<newline>'' [] s;
          s = print_arp_packet e req_packet s;
          k = length (tx s);
          s = write_tap (arp_packet_bytes e req_packet) s
      in if wfail k then die ''write packet'' s else req_n_wait_loop e rs s)"

section \<open>\<^verbatim>\<open>main\<close>\<close>

text \<open>
  What the system gives the process: the values returned by \<^verbatim>\<open>open\<close> and by the two
  \<^verbatim>\<open>ioctl\<close> calls, the bytes \<^verbatim>\<open>ifr.ifr_hwaddr.sa_data\<close> holds after \<^verbatim>\<open>SIOCGIFHWADDR\<close>, the
  outcome of each \<^verbatim>\<open>read\<close> on the descriptor in turn, which \<^verbatim>\<open>write\<close> calls fail, and the
  content of the stack where \<^verbatim>\<open>req_n_wait\<close> places \<^verbatim>\<open>req_packet\<close>.
\<close>

record world =
  open_ret :: int
  tunsetiff_ret :: int
  hwaddr_ret :: int
  sa_data :: "u8 list"
  reads :: "tap_read list"
  write_fails :: "nat \<Rightarrow> bool"
  stack :: arp_packet

text \<open>\<open>mode\<close> is the macro \<^verbatim>\<open>MODE\<close>; falling off the end of \<^verbatim>\<open>main\<close> is exit status 0.\<close>

definition main_prog :: "endian \<Rightarrow> int \<Rightarrow> world \<Rightarrow> proc" where
  "main_prog e mode w =
     (let s = proc_init
      in if open_ret w < 0 then die ''tap open'' s
         else if tunsetiff_ret w < 0 then die ''tap ioctl'' s
         else if hwaddr_ret w < 0 then die ''tap hwaddr'' s
         else
           let s = print_mac (sa_data w) s;
               s = (if mode \<noteq> 0 then req_n_wait e (write_fails w) (sa_data w) (stack w) (reads w) s
                    else wait_n_reply e (write_fails w) (sa_data w) (reads w) s)
           in if status s = Running then s\<lparr>status := Exited 0\<rparr> else s)"

section \<open>A worked exchange\<close>

text \<open>
  The node \<^verbatim>\<open>aa:bb:cc:dd:ee:ff\<close> at 172.16.60.250 and a peer \<^verbatim>\<open>11:22:33:44:55:66\<close> at
  172.16.60.157 that sends it an ARP frame with opcode \<open>op\<close>; a receive buffer that holds this
  frame and a receive buffer that holds an IPv4 frame.
\<close>

definition example_mac :: "u8 list" where
  "example_mac = [0xAA, 0xBB, 0xCC, 0xDD, 0xEE, 0xFF]"

definition example_peer_mac :: "u8 list" where
  "example_peer_mac = [0x11, 0x22, 0x33, 0x44, 0x55, 0x66]"

definition example_frame :: "endian \<Rightarrow> u16 \<Rightarrow> arp_packet" where
  "example_frame e op =
     \<lparr>ethhdr = \<lparr>h_dest = replicate 6 0xFF, h_source = example_peer_mac,
                h_proto = cpu_to_be16 e ETH_P_ARP\<rparr>,
      arphdr = \<lparr>arp_hd = cpu_to_be16 e ARPHRD_ETHER, arp_pr = cpu_to_be16 e ETH_P_IP,
                arp_hdl = 6, arp_prl = 4, arp_op = cpu_to_be16 e op,
                arp_sha = example_peer_mac, arp_spa = [172, 16, 60, 157],
                arp_dha = replicate 6 0, arp_dpa = [172, 16, 60, 250]\<rparr>\<rparr>"

definition example_buf :: "endian \<Rightarrow> u16 \<Rightarrow> u8 list" where
  "example_buf e op = arp_packet_bytes e (example_frame e op) @ replicate 1458 0"

definition example_ip_buf :: "u8 list" where
  "example_ip_buf = replicate 12 0xFF @ [0x08, 0x00] @ replicate 1486 0"

text \<open>A buffer of which only the Ethernet protocol field is set, to the ARP ethertype.\<close>

definition example_stray_buf :: "u8 list" where
  "example_stray_buf = replicate 12 0 @ [0x08, 0x06] @ replicate 1486 0"

text \<open>A device on which no \<^verbatim>\<open>write\<close> fails, and one on which every \<^verbatim>\<open>write\<close> fails.\<close>

definition write_ok :: "nat \<Rightarrow> bool" where
  "write_ok k \<longleftrightarrow> False"

definition write_bad :: "nat \<Rightarrow> bool" where
  "write_bad k \<longleftrightarrow> True"

definition example_world :: "endian \<Rightarrow> tap_read list \<Rightarrow> world" where
  "example_world e rs =
     \<lparr>open_ret = 3, tunsetiff_ret = 0, hwaddr_ret = 0, sa_data = example_mac @ replicate 8 0,
      reads = rs, write_fails = write_ok, stack = arp_packet_of e (replicate 42 0)\<rparr>"

section \<open>Byte order\<close>

lemma swab16_swab16: "swab16 (swab16 x) = x"
  unfolding swab16_def
  by (rule bit_word_eqI) (auto simp: bit_simps)

lemma be16_to_cpu_to_be16: "be16_to_cpu e (cpu_to_be16 e x) = x"
  by (cases e) (simp_all add: be16_to_cpu_def cpu_to_be16_def swab16_swab16)

lemma store_u16_two: "\<exists>a b. store_u16 e x = [a, b]"
  by (cases e) (simp_all add: store_u16_def)

lemma load_store_u16: "store_u16 e x = [a, b] \<Longrightarrow> load_u16 e a b = x"
  unfolding load_u16_def store_u16_def
  by (cases e; simp; rule bit_word_eqI) (auto simp: bit_simps)

lemma store_load_u16: "store_u16 e (load_u16 e a b) = [a, b]"
  unfolding load_u16_def store_u16_def
  by (cases e; simp; intro conjI; rule bit_word_eqI)
     (auto simp: bit_simps dest: bit_imp_le_length)

text \<open>On the wire the converted value is big-endian, whatever the host.\<close>

lemma store_cpu_to_be16: "store_u16 e (cpu_to_be16 e x) = [ucast (drop_bit 8 x), ucast x]"
  unfolding cpu_to_be16_def store_u16_def swab16_def
  by (cases e; simp; intro conjI; rule bit_word_eqI)
     (auto simp: bit_simps dest: bit_imp_le_length)

lemma length_store_u16: "length (store_u16 e x) = 2"
  by (cases e) (simp_all add: store_u16_def)

lemma load_eq_cpu_to_be16:
  "load_u16 e a b = cpu_to_be16 e x \<longleftrightarrow> a = ucast (drop_bit 8 x) \<and> b = ucast x"
proof
  assume "load_u16 e a b = cpu_to_be16 e x"
  then have "store_u16 e (load_u16 e a b) = store_u16 e (cpu_to_be16 e x)"
    by simp
  then show "a = ucast (drop_bit 8 x) \<and> b = ucast x"
    by (simp add: store_load_u16 store_cpu_to_be16)
next
  assume "a = ucast (drop_bit 8 x) \<and> b = ucast x"
  then have "store_u16 e (cpu_to_be16 e x) = [a, b]"
    by (simp add: store_cpu_to_be16)
  then show "load_u16 e a b = cpu_to_be16 e x"
    by (rule load_store_u16)
qed

section \<open>The layout of the frame\<close>

lemma memcpy_full: "length dst = n \<Longrightarrow> length src = n \<Longrightarrow> memcpy dst src n = src"
  by (simp add: memcpy_def)

lemma memset_full: "length dst = n \<Longrightarrow> memset dst c n = replicate n c"
  by (simp add: memset_def)

lemma length_ethhdr_bytes: "wf_ethhdr h \<Longrightarrow> length (ethhdr_bytes e h) = 14"
  by (simp add: ethhdr_bytes_def wf_ethhdr_def ETHER_ADDR_LEN_def length_store_u16)

lemma length_arp_hdr_bytes: "wf_arp_hdr a \<Longrightarrow> length (arp_hdr_bytes e a) = 28"
  by (simp add: arp_hdr_bytes_def wf_arp_hdr_def ETHER_ADDR_LEN_def INET_ADDR_LEN_def
      length_store_u16)

lemma length_arp_packet_bytes: "wf_arp_packet p \<Longrightarrow> length (arp_packet_bytes e p) = 42"
  by (simp add: arp_packet_bytes_def wf_arp_packet_def length_ethhdr_bytes length_arp_hdr_bytes)

lemma ethhdr_of_bytes:
  assumes "wf_ethhdr h"
  shows "ethhdr_of e (ethhdr_bytes e h @ rest) = h"
proof -
  obtain a b where ab: "store_u16 e (h_proto h) = [a, b]"
    using store_u16_two by blast
  from assms show ?thesis
    by (simp add: ethhdr_of_def ethhdr_bytes_def wf_ethhdr_def ETHER_ADDR_LEN_def nth_append
        ab load_store_u16 [OF ab])
qed

lemma arp_hdr_of_bytes:
  assumes "wf_arp_hdr a"
  shows "arp_hdr_of e (arp_hdr_bytes e a @ rest) = a"
proof -
  obtain a0 a1 where 1: "store_u16 e (arp_hd a) = [a0, a1]"
    using store_u16_two by blast
  obtain b0 b1 where 2: "store_u16 e (arp_pr a) = [b0, b1]"
    using store_u16_two by blast
  obtain c0 c1 where 3: "store_u16 e (arp_op a) = [c0, c1]"
    using store_u16_two by blast
  from assms show ?thesis
    by (simp add: arp_hdr_of_def arp_hdr_bytes_def wf_arp_hdr_def ETHER_ADDR_LEN_def
        INET_ADDR_LEN_def 1 2 3 load_store_u16 [OF 1] load_store_u16 [OF 2] load_store_u16 [OF 3])
qed

lemma arp_packet_of_bytes:
  "wf_arp_packet f \<Longrightarrow> arp_packet_of e (arp_packet_bytes e f @ rest) = f"
  by (simp add: arp_packet_of_def arp_packet_bytes_def wf_arp_packet_def ethhdr_of_bytes
      length_ethhdr_bytes arp_hdr_of_bytes)

lemma wf_arp_packet_of: "42 \<le> length b \<Longrightarrow> wf_arp_packet (arp_packet_of e b)"
  by (simp add: wf_arp_packet_def wf_ethhdr_def wf_arp_hdr_def arp_packet_of_def ethhdr_of_def
      arp_hdr_of_def ETHER_ADDR_LEN_def INET_ADDR_LEN_def)

lemma wf_example_frame: "wf_arp_packet (example_frame e op)"
  by (simp add: wf_arp_packet_def wf_ethhdr_def wf_arp_hdr_def example_frame_def
      example_peer_mac_def ETHER_ADDR_LEN_def INET_ADDR_LEN_def)

lemma length_example_mac: "length example_mac = ETHER_ADDR_LEN"
  by (simp add: example_mac_def ETHER_ADDR_LEN_def)

text \<open>
  C4. Round trip: for every frame whose address arrays have their declared sizes, the struct
  read back from the 42 bytes the frame occupies in memory is the frame itself, on a host of
  either byte order.
\<close>

theorem arp_packet_roundtrip:
  assumes "wf_arp_packet f"
  shows "arp_packet_of e (arp_packet_bytes e f) = f \<and> length (arp_packet_bytes e f) = 42"
  using assms arp_packet_of_bytes [of f e "[]"] length_arp_packet_bytes [of f e] by simp

theorem arp_packet_roundtrip_witness:
  "wf_arp_packet (example_frame LittleEndian ARPOP_REQUEST) \<and>
   arp_packet_of LittleEndian (arp_packet_bytes LittleEndian (example_frame LittleEndian ARPOP_REQUEST))
     = example_frame LittleEndian ARPOP_REQUEST \<and>
   length (arp_packet_bytes LittleEndian (example_frame LittleEndian ARPOP_REQUEST)) = 42"
  using arp_packet_roundtrip [of "example_frame LittleEndian ARPOP_REQUEST" LittleEndian]
    wf_example_frame [of LittleEndian ARPOP_REQUEST]
  by simp

section \<open>The reply\<close>

lemma mk_rep_packet_eq:
  "mk_rep_packet e mac req =
     \<lparr>ethhdr = \<lparr>h_dest = memcpy (h_dest (ethhdr req)) (arp_sha (arphdr req)) ETHER_ADDR_LEN,
                h_source = memcpy (h_source (ethhdr req)) mac ETHER_ADDR_LEN,
                h_proto = h_proto (ethhdr req)\<rparr>,
      arphdr = \<lparr>arp_hd = arp_hd (arphdr req), arp_pr = arp_pr (arphdr req),
                arp_hdl = arp_hdl (arphdr req), arp_prl = arp_prl (arphdr req),
                arp_op = cpu_to_be16 e ARPOP_REPLY,
                arp_sha = memcpy (arp_sha (arphdr req)) mac ETHER_ADDR_LEN,
                arp_spa = memcpy (arp_spa (arphdr req)) (arp_dpa (arphdr req)) INET_ADDR_LEN,
                arp_dha = memcpy (arp_dha (arphdr req)) (arp_sha (arphdr req)) ETHER_ADDR_LEN,
                arp_dpa = memcpy (arp_dpa (arphdr req)) (arp_spa (arphdr req)) INET_ADDR_LEN\<rparr>\<rparr>"
  by (simp add: mk_rep_packet_def Let_def)

lemma take_drop_nth: "n + k \<le> length b \<Longrightarrow> take k (drop n b) = map (\<lambda>i. b ! (n + i)) [0..<k]"
  by (auto simp: list_eq_iff_nth_eq)

lemma take8_drop12:
  assumes "42 \<le> length (b :: u8 list)"
  shows "take 8 (drop 12 b) = [b ! 12, b ! 13, b ! 14, b ! 15, b ! 16, b ! 17, b ! 18, b ! 19]"
proof -
  have "[0..<8] = [0, 1, 2, 3, 4, 5, 6, 7]"
    by (simp add: upt_rec)
  with assms show ?thesis
    by (simp add: take_drop_nth)
qed

lemma reply_bytes:
  assumes "42 \<le> length b" and "ETHER_ADDR_LEN \<le> length mac"
  shows "arp_packet_bytes e (mk_rep_packet e mac (arp_packet_of e b)) =
           take 6 (drop 22 b) @ take 6 mac @ take 8 (drop 12 b) @ [0, 2] @
           take 6 mac @ take 4 (drop 38 b) @ take 6 (drop 22 b) @ take 4 (drop 28 b)"
proof -
  have op: "store_u16 e (cpu_to_be16 e ARPOP_REPLY) = [0, 2]"
    by (simp add: store_cpu_to_be16 ARPOP_REPLY_def drop_bit_eq_div)
  show ?thesis
    using assms
    by (simp add: mk_rep_packet_eq arp_packet_bytes_def ethhdr_bytes_def arp_hdr_bytes_def
        arp_packet_of_def ethhdr_of_def arp_hdr_of_def memcpy_def ETHER_ADDR_LEN_def INET_ADDR_LEN_def
        store_load_u16 op take8_drop12)
qed

text \<open>
  C1. Responder correctness: for a request with sender hardware address \<open>arp_sha\<close>, sender
  protocol address \<open>arp_spa\<close> and target protocol address \<open>arp_dpa\<close>, and the local
  hardware address \<open>mac\<close>, the reply has Ethernet source \<open>mac\<close>, Ethernet destination the
  sender hardware address, opcode 2 (reply), ARP sender \<open>mac\<close> and the targeted protocol
  address, and ARP target the sender's hardware and protocol address.
\<close>

theorem reply_fields:
  assumes "wf_arp_packet req" and "length mac = ETHER_ADDR_LEN"
  shows "h_source (ethhdr (mk_rep_packet e mac req)) = mac \<and>
         h_dest (ethhdr (mk_rep_packet e mac req)) = arp_sha (arphdr req) \<and>
         arp_op (arphdr (mk_rep_packet e mac req)) = cpu_to_be16 e ARPOP_REPLY \<and>
         be16_to_cpu e (arp_op (arphdr (mk_rep_packet e mac req))) = 2 \<and>
         arp_sha (arphdr (mk_rep_packet e mac req)) = mac \<and>
         arp_spa (arphdr (mk_rep_packet e mac req)) = arp_dpa (arphdr req) \<and>
         arp_dha (arphdr (mk_rep_packet e mac req)) = arp_sha (arphdr req) \<and>
         arp_dpa (arphdr (mk_rep_packet e mac req)) = arp_spa (arphdr req)"
  using assms
  by (simp add: mk_rep_packet_eq wf_arp_packet_def wf_ethhdr_def wf_arp_hdr_def memcpy_full
      be16_to_cpu_to_be16 ARPOP_REPLY_def)

theorem reply_fields_witness:
  "wf_arp_packet (example_frame BigEndian ARPOP_REQUEST) \<and> length example_mac = ETHER_ADDR_LEN \<and>
   h_source (ethhdr (mk_rep_packet BigEndian example_mac (example_frame BigEndian ARPOP_REQUEST))) = [0xAA, 0xBB, 0xCC, 0xDD, 0xEE, 0xFF] \<and>
   h_dest (ethhdr (mk_rep_packet BigEndian example_mac (example_frame BigEndian ARPOP_REQUEST))) = [0x11, 0x22, 0x33, 0x44, 0x55, 0x66] \<and>
   be16_to_cpu BigEndian (arp_op (arphdr (mk_rep_packet BigEndian example_mac (example_frame BigEndian ARPOP_REQUEST)))) = 2 \<and>
   arp_sha (arphdr (mk_rep_packet BigEndian example_mac (example_frame BigEndian ARPOP_REQUEST))) = [0xAA, 0xBB, 0xCC, 0xDD, 0xEE, 0xFF] \<and>
   arp_spa (arphdr (mk_rep_packet BigEndian example_mac (example_frame BigEndian ARPOP_REQUEST))) = [172, 16, 60, 250] \<and>
   arp_dha (arphdr (mk_rep_packet BigEndian example_mac (example_frame BigEndian ARPOP_REQUEST))) = [0x11, 0x22, 0x33, 0x44, 0x55, 0x66] \<and>
   arp_dpa (arphdr (mk_rep_packet BigEndian example_mac (example_frame BigEndian ARPOP_REQUEST))) = [172, 16, 60, 157]"
proof -
  have wf: "wf_arp_packet (example_frame BigEndian ARPOP_REQUEST)"
    by (rule wf_example_frame)
  have len: "length example_mac = ETHER_ADDR_LEN"
    by (rule length_example_mac)
  have req: "arp_sha (arphdr (example_frame BigEndian ARPOP_REQUEST)) = [0x11, 0x22, 0x33, 0x44, 0x55, 0x66]"
    "arp_spa (arphdr (example_frame BigEndian ARPOP_REQUEST)) = [172, 16, 60, 157]"
    "arp_dpa (arphdr (example_frame BigEndian ARPOP_REQUEST)) = [172, 16, 60, 250]"
    by (simp_all add: example_frame_def example_peer_mac_def)
  have mac: "example_mac = [0xAA, 0xBB, 0xCC, 0xDD, 0xEE, 0xFF]"
    by (simp add: example_mac_def)
  from reply_fields [OF wf len, of BigEndian] wf len show ?thesis
    by (simp add: req mac be16_to_cpu_to_be16 ARPOP_REPLY_def)
qed

text \<open>
  C9. The fields the responder does not rewrite: ethertype, hardware and protocol address
  space, hardware and protocol address length of the reply are those of the request,
  whatever they are; on the wire, bytes 12 to 19 of the reply are bytes 12 to 19 of the
  receive buffer.
\<close>

theorem reply_keeps_other_fields:
  "h_proto (ethhdr (mk_rep_packet e mac req)) = h_proto (ethhdr req) \<and>
   arp_hd (arphdr (mk_rep_packet e mac req)) = arp_hd (arphdr req) \<and>
   arp_pr (arphdr (mk_rep_packet e mac req)) = arp_pr (arphdr req) \<and>
   arp_hdl (arphdr (mk_rep_packet e mac req)) = arp_hdl (arphdr req) \<and>
   arp_prl (arphdr (mk_rep_packet e mac req)) = arp_prl (arphdr req) \<and>
   (42 \<le> length b \<and> ETHER_ADDR_LEN \<le> length mac \<longrightarrow>
      take 8 (drop 12 (arp_packet_bytes e (mk_rep_packet e mac (arp_packet_of e b)))) = take 8 (drop 12 b))"
proof -
  have "take 8 (drop 12 (arp_packet_bytes e (mk_rep_packet e mac (arp_packet_of e b)))) = take 8 (drop 12 b)"
    if "42 \<le> length b" and "ETHER_ADDR_LEN \<le> length mac"
    using that by (simp add: reply_bytes ETHER_ADDR_LEN_def)
  then show ?thesis
    by (simp add: mk_rep_packet_eq)
qed

lemma length_example_buf: "length (example_buf e op) = 1500"
  by (simp add: example_buf_def length_arp_packet_bytes wf_example_frame)

lemma arp_packet_of_example_buf: "arp_packet_of e (example_buf e op) = example_frame e op"
  by (simp add: example_buf_def arp_packet_of_bytes wf_example_frame)

lemma example_frame_bytes:
  "arp_packet_bytes e (example_frame e op) =
     replicate 6 0xFF @ example_peer_mac @ [8, 6, 0, 1, 8, 0, 6, 4, ucast (drop_bit 8 op), ucast op] @
     example_peer_mac @ [172, 16, 60, 157] @ replicate 6 0 @ [172, 16, 60, 250]"
  by (simp add: arp_packet_bytes_def ethhdr_bytes_def arp_hdr_bytes_def example_frame_def
      store_cpu_to_be16 ETH_P_ARP_def ARPHRD_ETHER_def ETH_P_IP_def drop_bit_eq_div)

theorem reply_keeps_other_fields_witness:
  "42 \<le> length (example_buf LittleEndian 0x1234) \<and> ETHER_ADDR_LEN \<le> length example_mac \<and>
   take 8 (drop 12 (arp_packet_bytes LittleEndian
      (mk_rep_packet LittleEndian example_mac (arp_packet_of LittleEndian (example_buf LittleEndian 0x1234)))))
     = [8, 6, 0, 1, 8, 0, 6, 4]"
proof -
  have len: "42 \<le> length (example_buf LittleEndian 0x1234)"
    by (simp add: length_example_buf)
  have mac: "ETHER_ADDR_LEN \<le> length example_mac"
    by (simp add: length_example_mac)
  have "take 8 (drop 12 (example_buf LittleEndian 0x1234)) = [8, 6, 0, 1, 8, 0, 6, 4]"
    by (simp add: example_buf_def example_frame_bytes example_peer_mac_def)
  with reply_keeps_other_fields [of LittleEndian example_mac _ "example_buf LittleEndian 0x1234"] len mac
  show ?thesis by simp
qed

section \<open>The request\<close>

lemma inet_pton4_DEVICE_IP: "inet_pton4 DEVICE_IP False 0 [] = Some [172, 16, 60, 250]"
  by (simp add: DEVICE_IP_def is_dec_digit_def digit_val_def)

lemma inet_pton4_TARGET_IP: "inet_pton4 TARGET_IP False 0 [] = Some [172, 16, 60, 157]"
  by (simp add: TARGET_IP_def is_dec_digit_def digit_val_def)

lemma inet_pton_DEVICE_IP: "length dst = INET_ADDR_LEN \<Longrightarrow> inet_pton DEVICE_IP dst = [172, 16, 60, 250]"
  by (simp add: inet_pton_def inet_pton4_DEVICE_IP memcpy_def INET_ADDR_LEN_def)

lemma inet_pton_TARGET_IP: "length dst = INET_ADDR_LEN \<Longrightarrow> inet_pton TARGET_IP dst = [172, 16, 60, 157]"
  by (simp add: inet_pton_def inet_pton4_TARGET_IP memcpy_def INET_ADDR_LEN_def)

lemma inet_ntop_DEVICE_IP: "inet_ntop [172, 16, 60, 250] = DEVICE_IP"
  by (simp add: inet_ntop_def dec_u8_def dec_digit_def DEVICE_IP_def)

lemma inet_ntop_TARGET_IP: "inet_ntop [172, 16, 60, 157] = TARGET_IP"
  by (simp add: inet_ntop_def dec_u8_def dec_digit_def TARGET_IP_def)

lemma mk_req_packet_eq:
  assumes "wf_arp_packet uninit" and "length mac = ETHER_ADDR_LEN"
  shows "mk_req_packet e mac uninit =
     \<lparr>ethhdr = \<lparr>h_dest = replicate 6 0xFF, h_source = mac, h_proto = cpu_to_be16 e ETH_P_ARP\<rparr>,
      arphdr = \<lparr>arp_hd = cpu_to_be16 e ARPHRD_ETHER, arp_pr = cpu_to_be16 e ETH_P_IP,
                arp_hdl = 6, arp_prl = 4, arp_op = cpu_to_be16 e ARPOP_REQUEST,
                arp_sha = mac, arp_spa = [172, 16, 60, 250],
                arp_dha = replicate 6 0xFF, arp_dpa = [172, 16, 60, 157]\<rparr>\<rparr>"
  using assms
  by (simp add: mk_req_packet_def Let_def wf_arp_packet_def wf_ethhdr_def wf_arp_hdr_def
      memcpy_full memset_full inet_pton_DEVICE_IP inet_pton_TARGET_IP
      ETH_P_802_3_def ARPHRD_ETHER_def)
     (simp add: ETHER_ADDR_LEN_def INET_ADDR_LEN_def)

lemma replicate_6: "replicate 6 x = [x, x, x, x, x, x]"
  by (simp add: numeral_eq_Suc)

text \<open>
  C3. Requester framing: the request has Ethernet destination six \<open>0xFF\<close> bytes, Ethernet
  source the local hardware address, ethertype ARP; hardware address space 1 (Ethernet),
  protocol address space \<open>0x0800\<close> (IPv4), lengths 6 and 4, opcode 1 (request), sender the
  local hardware address and 172.16.60.250, target hardware address six \<open>0xFF\<close> bytes and
  target protocol address 172.16.60.157.
\<close>

theorem request_frame:
  assumes "wf_arp_packet uninit" and "length mac = ETHER_ADDR_LEN"
  shows "mk_req_packet e mac uninit =
           \<lparr>ethhdr = \<lparr>h_dest = replicate 6 0xFF, h_source = mac,
                      h_proto = cpu_to_be16 e ETH_P_ARP\<rparr>,
            arphdr = \<lparr>arp_hd = cpu_to_be16 e ARPHRD_ETHER, arp_pr = cpu_to_be16 e ETH_P_IP,
                      arp_hdl = 6, arp_prl = 4, arp_op = cpu_to_be16 e ARPOP_REQUEST,
                      arp_sha = mac, arp_spa = [172, 16, 60, 250],
                      arp_dha = replicate 6 0xFF, arp_dpa = [172, 16, 60, 157]\<rparr>\<rparr> \<and>
         be16_to_cpu e (arp_op (arphdr (mk_req_packet e mac uninit))) = 1 \<and>
         inet_ntop (arp_spa (arphdr (mk_req_packet e mac uninit))) = DEVICE_IP \<and>
         inet_ntop (arp_dpa (arphdr (mk_req_packet e mac uninit))) = TARGET_IP \<and>
         arp_packet_bytes e (mk_req_packet e mac uninit) =
           replicate 6 0xFF @ mac @ [0x08, 0x06, 0x00, 0x01, 0x08, 0x00, 6, 4, 0x00, 0x01] @
           mac @ [172, 16, 60, 250] @ replicate 6 0xFF @ [172, 16, 60, 157]"
  by (simp add: mk_req_packet_eq [OF assms] be16_to_cpu_to_be16 ARPOP_REQUEST_def
      inet_ntop_DEVICE_IP inet_ntop_TARGET_IP arp_packet_bytes_def ethhdr_bytes_def
      arp_hdr_bytes_def store_cpu_to_be16 ETH_P_ARP_def ARPHRD_ETHER_def ETH_P_IP_def
      drop_bit_eq_div)

theorem request_frame_witness:
  "wf_arp_packet (example_frame LittleEndian 0) \<and> length example_mac = ETHER_ADDR_LEN \<and>
   arp_packet_bytes LittleEndian (mk_req_packet LittleEndian example_mac (example_frame LittleEndian 0)) =
     [0xFF, 0xFF, 0xFF, 0xFF, 0xFF, 0xFF, 0xAA, 0xBB, 0xCC, 0xDD, 0xEE, 0xFF, 0x08, 0x06,
      0x00, 0x01, 0x08, 0x00, 6, 4, 0x00, 0x01, 0xAA, 0xBB, 0xCC, 0xDD, 0xEE, 0xFF, 172, 16, 60, 250,
      0xFF, 0xFF, 0xFF, 0xFF, 0xFF, 0xFF, 172, 16, 60, 157]"
proof -
  have wf: "wf_arp_packet (example_frame LittleEndian 0)"
    by (rule wf_example_frame)
  have len: "length example_mac = ETHER_ADDR_LEN"
    by (rule length_example_mac)
  from request_frame [OF wf len, of LittleEndian]
  have bytes: "arp_packet_bytes LittleEndian (mk_req_packet LittleEndian example_mac (example_frame LittleEndian 0)) =
      replicate 6 0xFF @ example_mac @ [0x08, 0x06, 0x00, 0x01, 0x08, 0x00, 6, 4, 0x00, 0x01] @
      example_mac @ [172, 16, 60, 250] @ replicate 6 0xFF @ [172, 16, 60, 157]"
    by blast
  show ?thesis
    unfolding bytes using wf len by (simp add: example_mac_def replicate_6)
qed

section \<open>What printing leaves alone\<close>

lemma printf_fields:
  "tx (printf fmt args s) = tx s" "stderr (printf fmt args s) = stderr s"
  "num (printf fmt args s) = num s" "status (printf fmt args s) = status s"
  by (simp_all add: printf_def)

lemma print_mac_fields:
  "tx (print_mac m s) = tx s" "stderr (print_mac m s) = stderr s"
  "num (print_mac m s) = num s" "status (print_mac m s) = status s"
  by (simp_all add: print_mac_def printf_fields)

lemma print_arp_packet_fields:
  "tx (print_arp_packet e p s) = tx s" "stderr (print_arp_packet e p s) = stderr s"
  "num (print_arp_packet e p s) = num s" "status (print_arp_packet e p s) = status s"
  by (simp_all add: print_arp_packet_def print_eth_hdr_def print_arp_hdr_def Let_def
      printf_fields print_mac_fields)

lemma die_fields:
  "tx (die tag s) = tx s" "stderr (die tag s) = stderr s @ [tag]"
  "num (die tag s) = num s" "status (die tag s) = Exited 1" "stdout (die tag s) = stdout s"
  by (simp_all add: die_def)

lemma write_tap_fields:
  "tx (write_tap b s) = tx s @ [b]" "stderr (write_tap b s) = stderr s"
  "num (write_tap b s) = num s" "status (write_tap b s) = status s"
  by (simp_all add: write_tap_def)

lemmas io_fields = printf_fields print_mac_fields print_arp_packet_fields die_fields write_tap_fields

section \<open>One iteration of the responder\<close>

lemma iter_read_error:
  "read_ret r < 0 \<Longrightarrow> wait_n_reply_iter e wfail mac r s = die ''read packet'' s"
  by (simp add: wait_n_reply_iter_def)

lemma iter_not_arp:
  "0 \<le> read_ret r \<Longrightarrow> \<not> is_arp e r \<Longrightarrow> wait_n_reply_iter e wfail mac r s = s"
  by (simp add: wait_n_reply_iter_def is_arp_def)

lemma iter_arp_tx:
  "0 \<le> read_ret r \<Longrightarrow> is_arp e r \<Longrightarrow>
   tx (wait_n_reply_iter e wfail mac r s) =
     tx s @ [arp_packet_bytes e (mk_rep_packet e mac (arp_packet_of e (read_buf r)))]"
  by (simp add: wait_n_reply_iter_def is_arp_def Let_def io_fields)

lemma iter_arp_num:
  "0 \<le> read_ret r \<Longrightarrow> is_arp e r \<Longrightarrow> num (wait_n_reply_iter e wfail mac r s) = num s + 1"
  by (simp add: wait_n_reply_iter_def is_arp_def Let_def io_fields)

lemma iter_arp_status:
  "0 \<le> read_ret r \<Longrightarrow> is_arp e r \<Longrightarrow>
   status (wait_n_reply_iter e wfail mac r s) = (if wfail (length (tx s)) then Exited 1 else status s)"
  by (simp add: wait_n_reply_iter_def is_arp_def Let_def io_fields)

lemma iter_arp_stderr:
  "0 \<le> read_ret r \<Longrightarrow> is_arp e r \<Longrightarrow>
   stderr (wait_n_reply_iter e wfail mac r s) =
     (if wfail (length (tx s)) then stderr s @ [''write packet''] else stderr s)"
  by (simp add: wait_n_reply_iter_def is_arp_def Let_def io_fields)

lemma iter_status_cases:
  "status (wait_n_reply_iter e wfail mac r s) = status s \<or>
   status (wait_n_reply_iter e wfail mac r s) = Exited 1"
  by (cases "read_ret r < 0"; cases "is_arp e r")
     (simp_all add: iter_read_error iter_not_arp iter_arp_status die_fields)

lemma iter_ignores_count:
  "0 \<le> n \<Longrightarrow> 0 \<le> m \<Longrightarrow>
   wait_n_reply_iter e wfail mac (ReadRet n b) s = wait_n_reply_iter e wfail mac (ReadRet m b) s"
  by (simp add: wait_n_reply_iter_def)

lemma is_arp_bytes: "is_arp e r \<longleftrightarrow> read_buf r ! 12 = 0x08 \<and> read_buf r ! 13 = 0x06"
proof -
  have "(ucast (drop_bit 8 ETH_P_ARP) :: u8) = 0x08" and "(ucast ETH_P_ARP :: u8) = 0x06"
    by (simp_all add: ETH_P_ARP_def drop_bit_eq_div)
  then show ?thesis
    by (simp add: is_arp_def ethhdr_of_def load_eq_cpu_to_be16)
qed

section \<open>The loops\<close>

lemma status_Running_update: "status s = Running \<Longrightarrow> s\<lparr>status := Running\<rparr> = s"
  by simp

lemma wait_n_reply_loop_status:
  "status s = Running \<Longrightarrow>
   status (wait_n_reply_loop e wfail mac rs s) = Waiting \<or>
   status (wait_n_reply_loop e wfail mac rs s) = Exited 1"
proof (induction rs arbitrary: s)
  case Nil
  then show ?case by simp
next
  case (Cons r rs)
  from iter_status_cases [of e wfail mac r s] Cons.prems
  consider "status (wait_n_reply_iter e wfail mac r s) = Running"
    | "status (wait_n_reply_iter e wfail mac r s) = Exited 1"
    by auto
  then show ?case
  proof cases
    case 1
    with Cons.IH [of "wait_n_reply_iter e wfail mac r s"] show ?thesis
      by (simp add: Let_def)
  next
    case 2
    then show ?thesis by (simp add: Let_def)
  qed
qed

lemma wait_n_reply_loop_append:
  "status s = Running \<Longrightarrow>
   wait_n_reply_loop e wfail mac (pre @ rs) s =
     (if status (wait_n_reply_loop e wfail mac pre s) = Waiting
      then wait_n_reply_loop e wfail mac rs ((wait_n_reply_loop e wfail mac pre s)\<lparr>status := Running\<rparr>)
      else wait_n_reply_loop e wfail mac pre s)"
proof (induction pre arbitrary: s)
  case Nil
  then show ?case by (simp add: status_Running_update)
next
  case (Cons p pre)
  from iter_status_cases [of e wfail mac p s] Cons.prems
  consider "status (wait_n_reply_iter e wfail mac p s) = Running"
    | "status (wait_n_reply_iter e wfail mac p s) = Exited 1"
    by auto
  then show ?case
  proof cases
    case 1
    with Cons.IH [of "wait_n_reply_iter e wfail mac p s"] show ?thesis
      by (simp add: Let_def)
  next
    case 2
    then show ?thesis by (simp add: Let_def)
  qed
qed

lemma req_n_wait_loop_tx: "tx (req_n_wait_loop e rs s) = tx s"
  by (induction rs arbitrary: s) (simp_all add: Let_def io_fields)

lemma req_n_wait_loop_status:
  "status s = Running \<Longrightarrow>
   status (req_n_wait_loop e rs s) = Running \<or> status (req_n_wait_loop e rs s) = Waiting \<or>
   status (req_n_wait_loop e rs s) = Exited 1"
  by (induction rs arbitrary: s) (simp_all add: Let_def io_fields)

lemma req_n_wait_loop_append:
  "status s = Running \<Longrightarrow>
   req_n_wait_loop e (pre @ rs) s =
     (if status (req_n_wait_loop e pre s) = Waiting
      then req_n_wait_loop e rs ((req_n_wait_loop e pre s)\<lparr>status := Running\<rparr>)
      else req_n_wait_loop e pre s)"
  by (induction pre arbitrary: s) (simp_all add: Let_def io_fields status_Running_update)

lemma req_n_wait_loop_returns_iff:
  "status s = Running \<Longrightarrow>
   status (req_n_wait_loop e rs s) = Running \<longleftrightarrow>
     (\<exists>pre r post. rs = pre @ r # post \<and> (\<forall>p \<in> set pre. 0 \<le> read_ret p \<and> \<not> is_arp e p) \<and>
        0 \<le> read_ret r \<and> is_arp e r)"
proof (induction rs arbitrary: s)
  case Nil
  then show ?case by simp
next
  case (Cons a rs)
  show ?case
  proof (cases "read_ret a < 0")
    case True
    have "\<not> (\<exists>pre r post. a # rs = pre @ r # post \<and>
        (\<forall>p \<in> set pre. 0 \<le> read_ret p \<and> \<not> is_arp e p) \<and> 0 \<le> read_ret r \<and> is_arp e r)"
    proof
      assume "\<exists>pre r post. a # rs = pre @ r # post \<and>
        (\<forall>p \<in> set pre. 0 \<le> read_ret p \<and> \<not> is_arp e p) \<and> 0 \<le> read_ret r \<and> is_arp e r"
      then obtain pre r post where *: "a # rs = pre @ r # post"
        "\<forall>p \<in> set pre. 0 \<le> read_ret p \<and> \<not> is_arp e p" "0 \<le> read_ret r"
        by blast
      then show False using True by (cases pre) auto
    qed
    with True show ?thesis by (simp add: io_fields)
  next
    case ok: False
    show ?thesis
    proof (cases "is_arp e a")
      case True
      have "a # rs = [] @ a # rs \<and> (\<forall>p \<in> set []. 0 \<le> read_ret p \<and> \<not> is_arp e p) \<and>
          0 \<le> read_ret a \<and> is_arp e a"
        using ok True by simp
      then have "\<exists>pre r post. a # rs = pre @ r # post \<and>
        (\<forall>p \<in> set pre. 0 \<le> read_ret p \<and> \<not> is_arp e p) \<and> 0 \<le> read_ret r \<and> is_arp e r"
        by blast
      with ok True Cons.prems show ?thesis
        by (simp add: Let_def io_fields is_arp_def)
    next
      case False
      have "(\<exists>pre r post. a # rs = pre @ r # post \<and>
          (\<forall>p \<in> set pre. 0 \<le> read_ret p \<and> \<not> is_arp e p) \<and> 0 \<le> read_ret r \<and> is_arp e r) \<longleftrightarrow>
        (\<exists>pre r post. rs = pre @ r # post \<and>
          (\<forall>p \<in> set pre. 0 \<le> read_ret p \<and> \<not> is_arp e p) \<and> 0 \<le> read_ret r \<and> is_arp e r)"
        (is "?L \<longleftrightarrow> ?R")
      proof
        assume ?L
        then obtain pre r post where *: "a # rs = pre @ r # post"
          "\<forall>p \<in> set pre. 0 \<le> read_ret p \<and> \<not> is_arp e p" "0 \<le> read_ret r" "is_arp e r"
          by blast
        show ?R
        proof (cases pre)
          case Nil
          with * False show ?thesis by simp
        next
          case (Cons q pre')
          with * have "rs = pre' @ r # post" "\<forall>p \<in> set pre'. 0 \<le> read_ret p \<and> \<not> is_arp e p"
            by simp_all
          with * show ?thesis by blast
        qed
      next
        assume ?R
        then obtain pre r post where *: "rs = pre @ r # post"
          "\<forall>p \<in> set pre. 0 \<le> read_ret p \<and> \<not> is_arp e p" "0 \<le> read_ret r" "is_arp e r"
          by blast
        then have "a # rs = (a # pre) @ r # post"
          "\<forall>p \<in> set (a # pre). 0 \<le> read_ret p \<and> \<not> is_arp e p"
          using ok False by simp_all
        with * show ?L by blast
      qed
      with ok False Cons.IH [OF Cons.prems] show ?thesis
        by (simp add: is_arp_def)
    qed
  qed
qed

section \<open>The worked exchange, evaluated\<close>

lemma is_arp_example_buf: "is_arp e (ReadRet n (example_buf e op))"
proof -
  have "ethhdr_of e (example_buf e op) = ethhdr (arp_packet_of e (example_buf e op))"
    by (simp add: arp_packet_of_def)
  then show ?thesis
    by (simp add: is_arp_def arp_packet_of_example_buf example_frame_def)
qed

lemma not_is_arp_example_ip_buf: "\<not> is_arp e (ReadRet n example_ip_buf)"
  by (simp add: is_arp_bytes example_ip_buf_def nth_append)

lemma is_arp_example_stray_buf: "is_arp e (ReadRet n example_stray_buf)"
  by (simp add: is_arp_bytes example_stray_buf_def nth_append)

lemma example_reply_bytes:
  "arp_packet_bytes e (mk_rep_packet e example_mac (arp_packet_of e (example_buf e op))) =
     [0x11, 0x22, 0x33, 0x44, 0x55, 0x66, 0xAA, 0xBB, 0xCC, 0xDD, 0xEE, 0xFF, 0x08, 0x06,
      0x00, 0x01, 0x08, 0x00, 6, 4, 0x00, 0x02, 0xAA, 0xBB, 0xCC, 0xDD, 0xEE, 0xFF,
      172, 16, 60, 250, 0x11, 0x22, 0x33, 0x44, 0x55, 0x66, 172, 16, 60, 157]"
  by (simp add: arp_packet_of_example_buf mk_rep_packet_eq example_frame_def memcpy_def
      ETHER_ADDR_LEN_def INET_ADDR_LEN_def example_mac_def example_peer_mac_def
      arp_packet_bytes_def ethhdr_bytes_def arp_hdr_bytes_def store_cpu_to_be16
      ETH_P_ARP_def ARPHRD_ETHER_def ETH_P_IP_def ARPOP_REPLY_def drop_bit_eq_div)

section \<open>The responder's filter\<close>

text \<open>
  C2. A received frame whose Ethernet protocol field is the ARP ethertype is answered: the
  reply built from it is handed to \<^verbatim>\<open>write\<close>, whatever its opcode. One pass through the loop
  hands a frame to \<^verbatim>\<open>write\<close> exactly when the read succeeded and the protocol field is ARP;
  the opcode takes no part in the decision.
\<close>

theorem replies_to_any_arp_frame:
  "(0 \<le> read_ret r \<and> is_arp e r \<longrightarrow>
      tx (wait_n_reply_iter e wfail mac r s) =
        tx s @ [arp_packet_bytes e (mk_rep_packet e mac (arp_packet_of e (read_buf r)))]) \<and>
   (tx (wait_n_reply_iter e wfail mac r s) \<noteq> tx s \<longleftrightarrow> 0 \<le> read_ret r \<and> is_arp e r)"
proof (cases "read_ret r < 0")
  case True
  then show ?thesis by (simp add: iter_read_error die_fields)
next
  case False
  then show ?thesis
    by (cases "is_arp e r") (simp_all add: iter_not_arp iter_arp_tx)
qed

theorem replies_to_any_arp_frame_witness:
  "0 \<le> read_ret (ReadRet 42 (example_buf LittleEndian ARPOP_REPLY)) \<and>
   is_arp LittleEndian (ReadRet 42 (example_buf LittleEndian ARPOP_REPLY)) \<and>
   be16_to_cpu LittleEndian (arp_op (arphdr (arp_packet_of LittleEndian (example_buf LittleEndian ARPOP_REPLY))))
     \<noteq> ARPOP_REQUEST \<and>
   tx (wait_n_reply_iter LittleEndian write_ok example_mac
         (ReadRet 42 (example_buf LittleEndian ARPOP_REPLY)) proc_init) =
     [[0x11, 0x22, 0x33, 0x44, 0x55, 0x66, 0xAA, 0xBB, 0xCC, 0xDD, 0xEE, 0xFF, 0x08, 0x06,
       0x00, 0x01, 0x08, 0x00, 6, 4, 0x00, 0x02, 0xAA, 0xBB, 0xCC, 0xDD, 0xEE, 0xFF,
       172, 16, 60, 250, 0x11, 0x22, 0x33, 0x44, 0x55, 0x66, 172, 16, 60, 157]]"
proof -
  have arp: "is_arp LittleEndian (ReadRet 42 (example_buf LittleEndian ARPOP_REPLY))"
    by (rule is_arp_example_buf)
  have op: "be16_to_cpu LittleEndian
      (arp_op (arphdr (arp_packet_of LittleEndian (example_buf LittleEndian ARPOP_REPLY)))) \<noteq> ARPOP_REQUEST"
    by (simp add: arp_packet_of_example_buf example_frame_def be16_to_cpu_to_be16
        ARPOP_REPLY_def ARPOP_REQUEST_def)
  from replies_to_any_arp_frame
    [of "ReadRet 42 (example_buf LittleEndian ARPOP_REPLY)" LittleEndian write_ok example_mac proc_init]
    arp
  have "tx (wait_n_reply_iter LittleEndian write_ok example_mac
         (ReadRet 42 (example_buf LittleEndian ARPOP_REPLY)) proc_init) =
     tx proc_init @ [arp_packet_bytes LittleEndian (mk_rep_packet LittleEndian example_mac
        (arp_packet_of LittleEndian (example_buf LittleEndian ARPOP_REPLY)))]"
    by simp
  with arp op show ?thesis
    by (simp add: example_reply_bytes proc_init_def)
qed

text \<open>
  C5. Filtering: a received frame whose Ethernet protocol field is not the ARP ethertype
  leaves the whole state of the process as it was (nothing printed, nothing sent, the counter
  \<^verbatim>\<open>num\<close> unchanged), and the loop goes on to the next read.
\<close>

theorem non_arp_frame_ignored:
  assumes "0 \<le> read_ret r" and "\<not> is_arp e r"
  shows "wait_n_reply_iter e wfail mac r s = s \<and>
         (status s = Running \<longrightarrow>
            wait_n_reply_loop e wfail mac (r # rs) s = wait_n_reply_loop e wfail mac rs s)"
  using assms by (simp add: iter_not_arp Let_def)

theorem non_arp_frame_ignored_witness:
  "0 \<le> read_ret (ReadRet 60 example_ip_buf) \<and> \<not> is_arp BigEndian (ReadRet 60 example_ip_buf) \<and>
   status proc_init = Running \<and>
   wait_n_reply_iter BigEndian write_ok example_mac (ReadRet 60 example_ip_buf) proc_init = proc_init \<and>
   wait_n_reply_loop BigEndian write_ok example_mac [ReadRet 60 example_ip_buf] proc_init =
     proc_init\<lparr>status := Waiting\<rparr>"
proof -
  have ok: "0 \<le> read_ret (ReadRet 60 example_ip_buf)"
    by simp
  have ip: "\<not> is_arp BigEndian (ReadRet 60 example_ip_buf)"
    by (rule not_is_arp_example_ip_buf)
  have run: "status proc_init = Running"
    by (simp add: proc_init_def)
  from non_arp_frame_ignored [OF ok ip, of write_ok example_mac proc_init "[]"] ok ip run
  show ?thesis by simp
qed

text \<open>
  C6, as stated, fails: a read that returns 14 bytes, an Ethernet header with the ARP
  ethertype, into a buffer whose following bytes are left over from an earlier frame. The
  responder does not discard it: it takes the 42 leading bytes of the buffer for a frame and
  sends a reply.
\<close>

theorem short_read_counterexample:
  "0 \<le> read_ret (ReadRet 14 (example_buf LittleEndian ARPOP_REQUEST)) \<and>
   read_ret (ReadRet 14 (example_buf LittleEndian ARPOP_REQUEST)) < 42 \<and>
   status (wait_n_reply_iter LittleEndian write_ok example_mac
         (ReadRet 14 (example_buf LittleEndian ARPOP_REQUEST)) proc_init) = Running \<and>
   tx proc_init = [] \<and>
   tx (wait_n_reply_iter LittleEndian write_ok example_mac
         (ReadRet 14 (example_buf LittleEndian ARPOP_REQUEST)) proc_init) =
     [[0x11, 0x22, 0x33, 0x44, 0x55, 0x66, 0xAA, 0xBB, 0xCC, 0xDD, 0xEE, 0xFF, 0x08, 0x06,
       0x00, 0x01, 0x08, 0x00, 6, 4, 0x00, 0x02, 0xAA, 0xBB, 0xCC, 0xDD, 0xEE, 0xFF,
       172, 16, 60, 250, 0x11, 0x22, 0x33, 0x44, 0x55, 0x66, 172, 16, 60, 157]]"
  by (simp add: iter_arp_tx iter_arp_status is_arp_example_buf example_reply_bytes proc_init_def
      write_ok_def)

text \<open>
  C6, amended. The count \<^verbatim>\<open>read\<close> returns is only tested for being negative, so a received
  byte sequence shorter than the 42 bytes of a frame is handled like a full-sized one with the
  same buffer content. It is discarded, with the state unchanged and the process still
  running, when bytes 12 and 13 of the buffer are not the ARP ethertype; otherwise the 42
  leading bytes of the buffer are taken for a frame and a reply is sent, and the process exits
  only if that \<^verbatim>\<open>write\<close> fails.
\<close>

theorem short_read_not_checked:
  assumes "0 \<le> read_ret r" and "read_ret r < 42"
  shows "wait_n_reply_iter e wfail mac r s =
           wait_n_reply_iter e wfail mac (ReadRet 1500 (read_buf r)) s \<and>
         (\<not> is_arp e r \<longrightarrow> wait_n_reply_iter e wfail mac r s = s) \<and>
         (is_arp e r \<longrightarrow>
            tx (wait_n_reply_iter e wfail mac r s) =
              tx s @ [arp_packet_bytes e (mk_rep_packet e mac (arp_packet_of e (read_buf r)))] \<and>
            status (wait_n_reply_iter e wfail mac r s) =
              (if wfail (length (tx s)) then Exited 1 else status s))"
proof -
  have "wait_n_reply_iter e wfail mac (ReadRet (read_ret r) (read_buf r)) s =
      wait_n_reply_iter e wfail mac (ReadRet 1500 (read_buf r)) s"
    using assms(1) by (intro iter_ignores_count) simp_all
  then have same: "wait_n_reply_iter e wfail mac r s =
      wait_n_reply_iter e wfail mac (ReadRet 1500 (read_buf r)) s"
    by simp
  have dropped: "\<not> is_arp e r \<longrightarrow> wait_n_reply_iter e wfail mac r s = s"
    using assms(1) by (simp add: iter_not_arp)
  have answered: "is_arp e r \<longrightarrow>
      tx (wait_n_reply_iter e wfail mac r s) =
        tx s @ [arp_packet_bytes e (mk_rep_packet e mac (arp_packet_of e (read_buf r)))] \<and>
      status (wait_n_reply_iter e wfail mac r s) =
        (if wfail (length (tx s)) then Exited 1 else status s)"
    using assms(1) by (simp add: iter_arp_tx iter_arp_status)
  from same dropped answered show ?thesis
    by (intro conjI)
qed

theorem short_read_not_checked_witness:
  "0 \<le> read_ret (ReadRet 14 example_stray_buf) \<and> read_ret (ReadRet 14 example_stray_buf) < 42 \<and>
   is_arp BigEndian (ReadRet 14 example_stray_buf) \<and>
   wait_n_reply_iter BigEndian write_ok example_mac (ReadRet 14 example_stray_buf) proc_init =
     wait_n_reply_iter BigEndian write_ok example_mac (ReadRet 1500 example_stray_buf) proc_init \<and>
   length (tx (wait_n_reply_iter BigEndian write_ok example_mac (ReadRet 14 example_stray_buf) proc_init)) = 1 \<and>
   status (wait_n_reply_iter BigEndian write_ok example_mac (ReadRet 14 example_stray_buf) proc_init) = Running"
proof -
  have ok: "0 \<le> read_ret (ReadRet 14 example_stray_buf)" and
    short: "read_ret (ReadRet 14 example_stray_buf) < 42"
    by simp_all
  have arp: "is_arp BigEndian (ReadRet 14 example_stray_buf)"
    by (rule is_arp_example_stray_buf)
  note t = short_read_not_checked [OF ok short, of BigEndian write_ok example_mac proc_init,
      simplified tap_read.sel]
  from t have same:
    "wait_n_reply_iter BigEndian write_ok example_mac (ReadRet 14 example_stray_buf) proc_init =
     wait_n_reply_iter BigEndian write_ok example_mac (ReadRet 1500 example_stray_buf) proc_init"
    by blast
  from t arp have
    "tx (wait_n_reply_iter BigEndian write_ok example_mac (ReadRet 14 example_stray_buf) proc_init) =
       tx proc_init @ [arp_packet_bytes BigEndian
         (mk_rep_packet BigEndian example_mac (arp_packet_of BigEndian example_stray_buf))]"
    and "status (wait_n_reply_iter BigEndian write_ok example_mac (ReadRet 14 example_stray_buf) proc_init) =
       (if write_ok (length (tx proc_init)) then Exited 1 else status proc_init)"
    by blast+
  then have
    "length (tx (wait_n_reply_iter BigEndian write_ok example_mac (ReadRet 14 example_stray_buf) proc_init)) = 1"
    and "status (wait_n_reply_iter BigEndian write_ok example_mac (ReadRet 14 example_stray_buf) proc_init) = Running"
    by (simp_all add: proc_init_def write_ok_def)
  with ok short arp same show ?thesis
    by (intro conjI)
qed

section \<open>The requester's loop\<close>

text \<open>
  C10. A run of the requester hands exactly one frame to \<^verbatim>\<open>write\<close>, the request, whatever
  is received afterwards and however many frames that is; the receive loop never sends.
\<close>

theorem requester_sends_once:
  "tx (req_n_wait e wfail mac uninit rs s) = tx s @ [arp_packet_bytes e (mk_req_packet e mac uninit)] \<and>
   tx (req_n_wait_loop e rs s) = tx s"
  by (simp add: req_n_wait_def Let_def req_n_wait_loop_tx io_fields)

section \<open>Whole runs\<close>

lemma wait_n_reply_status:
  "status s = Running \<Longrightarrow>
   status (wait_n_reply e wfail mac rs s) = Waiting \<or> status (wait_n_reply e wfail mac rs s) = Exited 1"
  by (simp add: wait_n_reply_def Let_def wait_n_reply_loop_status io_fields)

lemma wait_n_reply_append:
  "status s = Running \<Longrightarrow>
   wait_n_reply e wfail mac (pre @ rs) s =
     (if status (wait_n_reply e wfail mac pre s) = Waiting
      then wait_n_reply_loop e wfail mac rs ((wait_n_reply e wfail mac pre s)\<lparr>status := Running\<rparr>)
      else wait_n_reply e wfail mac pre s)"
  by (simp add: wait_n_reply_def Let_def wait_n_reply_loop_append io_fields)

lemma req_n_wait_status:
  "status s = Running \<Longrightarrow>
   status (req_n_wait e wfail mac u rs s) = Running \<or> status (req_n_wait e wfail mac u rs s) = Waiting \<or>
   status (req_n_wait e wfail mac u rs s) = Exited 1"
  by (simp add: req_n_wait_def Let_def req_n_wait_loop_status io_fields)

lemma req_n_wait_append:
  "status s = Running \<Longrightarrow>
   req_n_wait e wfail mac u (pre @ rs) s =
     (if status (req_n_wait e wfail mac u pre s) = Waiting
      then req_n_wait_loop e rs ((req_n_wait e wfail mac u pre s)\<lparr>status := Running\<rparr>)
      else req_n_wait e wfail mac u pre s)"
  by (simp add: req_n_wait_def Let_def req_n_wait_loop_append io_fields)

lemma req_n_wait_write_fails:
  "wfail (length (tx s)) \<Longrightarrow>
   status (req_n_wait e wfail mac u rs s) = Exited 1 \<and>
   stderr (req_n_wait e wfail mac u rs s) = stderr s @ [''write packet''] \<and>
   tx (req_n_wait e wfail mac u rs s) = tx s @ [arp_packet_bytes e (mk_req_packet e mac u)]"
  by (simp add: req_n_wait_def Let_def io_fields)

lemma req_n_wait_returns_iff:
  "status s = Running \<Longrightarrow>
   status (req_n_wait e wfail mac u rs s) = Running \<longleftrightarrow>
     \<not> wfail (length (tx s)) \<and>
     (\<exists>pre r post. rs = pre @ r # post \<and> (\<forall>p \<in> set pre. 0 \<le> read_ret p \<and> \<not> is_arp e p) \<and>
        0 \<le> read_ret r \<and> is_arp e r)"
  by (simp add: req_n_wait_def Let_def io_fields req_n_wait_loop_returns_iff)

lemma status_start: "status (print_mac m proc_init) = Running"
  by (simp add: io_fields proc_init_def)

lemma main_prog_responder:
  assumes "0 \<le> open_ret w" and "0 \<le> tunsetiff_ret w" and "0 \<le> hwaddr_ret w"
  shows "main_prog e 0 w =
           wait_n_reply e (write_fails w) (sa_data w) (reads w) (print_mac (sa_data w) proc_init)"
  using assms wait_n_reply_status [OF status_start, of e "write_fails w" "sa_data w" "reads w" "sa_data w"]
  by (auto simp: main_prog_def Let_def)

lemma main_prog_requester:
  assumes "0 \<le> open_ret w" and "0 \<le> tunsetiff_ret w" and "0 \<le> hwaddr_ret w" and "mode \<noteq> 0"
  shows "main_prog e mode w =
           (if status (req_n_wait e (write_fails w) (sa_data w) (stack w) (reads w)
                         (print_mac (sa_data w) proc_init)) = Running
            then (req_n_wait e (write_fails w) (sa_data w) (stack w) (reads w)
                         (print_mac (sa_data w) proc_init))\<lparr>status := Exited 0\<rparr>
            else req_n_wait e (write_fails w) (sa_data w) (stack w) (reads w)
                         (print_mac (sa_data w) proc_init))"
  using assms by (simp add: main_prog_def Let_def)

lemma main_prog_attach_failed:
  "open_ret w < 0 \<or> tunsetiff_ret w < 0 \<or> hwaddr_ret w < 0 \<Longrightarrow>
   status (main_prog e mode w) = Exited 1"
  by (auto simp: main_prog_def Let_def die_fields)

lemma main_prog_Waiting_attached:
  assumes "status (main_prog e mode w) = Waiting"
  shows "0 \<le> open_ret w \<and> 0 \<le> tunsetiff_ret w \<and> 0 \<le> hwaddr_ret w"
proof (rule ccontr)
  assume "\<not> ?thesis"
  then have "open_ret w < 0 \<or> tunsetiff_ret w < 0 \<or> hwaddr_ret w < 0"
    by auto
  from main_prog_attach_failed [OF this, of e mode] assms show False
    by simp
qed

text \<open>A run is the run on the reads consumed so far, continued by the loop on the others.\<close>

lemma main_prog_append:
  assumes rd: "reads w = pre @ rs"
    and wait: "status (main_prog e mode (w\<lparr>reads := pre\<rparr>)) = Waiting"
  shows "main_prog e mode w =
    (if mode \<noteq> 0
     then (if status (req_n_wait_loop e rs ((main_prog e mode (w\<lparr>reads := pre\<rparr>))\<lparr>status := Running\<rparr>)) = Running
           then (req_n_wait_loop e rs ((main_prog e mode (w\<lparr>reads := pre\<rparr>))\<lparr>status := Running\<rparr>))\<lparr>status := Exited 0\<rparr>
           else req_n_wait_loop e rs ((main_prog e mode (w\<lparr>reads := pre\<rparr>))\<lparr>status := Running\<rparr>))
     else wait_n_reply_loop e (write_fails w) (sa_data w) rs
            ((main_prog e mode (w\<lparr>reads := pre\<rparr>))\<lparr>status := Running\<rparr>))"
proof -
  from main_prog_Waiting_attached [OF wait]
  have ok: "0 \<le> open_ret w" "0 \<le> tunsetiff_ret w" "0 \<le> hwaddr_ret w"
    by simp_all
  then have ok': "0 \<le> open_ret (w\<lparr>reads := pre\<rparr>)" "0 \<le> tunsetiff_ret (w\<lparr>reads := pre\<rparr>)"
    "0 \<le> hwaddr_ret (w\<lparr>reads := pre\<rparr>)"
    by simp_all
  show ?thesis
  proof (cases "mode = 0")
    case True
    from wait have w': "status (wait_n_reply e (write_fails w) (sa_data w) pre
        (print_mac (sa_data w) proc_init)) = Waiting"
      by (simp add: True main_prog_responder [OF ok'])
    show ?thesis
      using w'
      by (simp add: True main_prog_responder [OF ok] main_prog_responder [OF ok'] rd
          wait_n_reply_append [OF status_start])
  next
    case False
    let ?R = "req_n_wait e (write_fails w) (sa_data w) (stack w) pre (print_mac (sa_data w) proc_init)"
    from wait have w': "status ?R = Waiting"
      by (simp add: main_prog_requester [OF ok' False] split: if_splits)
    then have m: "main_prog e mode (w\<lparr>reads := pre\<rparr>) = ?R"
      by (simp add: main_prog_requester [OF ok' False])
    show ?thesis
      using w'
      by (simp add: False m main_prog_requester [OF ok False] rd
          req_n_wait_append [OF status_start])
  qed
qed

lemma example_world_sel:
  "open_ret (example_world e rs) = 3" "tunsetiff_ret (example_world e rs) = 0"
  "hwaddr_ret (example_world e rs) = 0" "sa_data (example_world e rs) = example_mac @ replicate 8 0"
  "reads (example_world e rs) = rs" "write_fails (example_world e rs) = write_ok"
  "stack (example_world e rs) = arp_packet_of e (replicate 42 0)"
  by (simp_all add: example_world_def)

lemma responder_blocked_at_start:
  assumes "0 \<le> open_ret w" and "0 \<le> tunsetiff_ret w" and "0 \<le> hwaddr_ret w"
  shows "status (main_prog e 0 (w\<lparr>reads := []\<rparr>)) = Waiting \<and>
         tx (main_prog e 0 (w\<lparr>reads := []\<rparr>)) = [] \<and>
         stderr (main_prog e 0 (w\<lparr>reads := []\<rparr>)) = []"
proof -
  have "main_prog e 0 (w\<lparr>reads := []\<rparr>) =
      wait_n_reply e (write_fails w) (sa_data w) [] (print_mac (sa_data w) proc_init)"
    using assms main_prog_responder [of "w\<lparr>reads := []\<rparr>" e] by simp
  then show ?thesis
    by (simp add: wait_n_reply_def Let_def io_fields proc_init_def)
qed


lemma example_stray_frame:
  "arp_op (arphdr (arp_packet_of e example_stray_buf)) = 0"
  "arp_spa (arphdr (arp_packet_of e example_stray_buf)) = [0, 0, 0, 0]"
  "arp_sha (arphdr (arp_packet_of e example_stray_buf)) = [0, 0, 0, 0, 0, 0]"
proof -
  have d: "drop 14 example_stray_buf = replicate 1486 0"
    by (simp add: example_stray_buf_def)
  have r4: "replicate 4 (0::u8) = [0, 0, 0, 0]" and r6: "replicate 6 (0::u8) = [0, 0, 0, 0, 0, 0]"
    by (simp_all add: numeral_eq_Suc)
  have "load_u16 e 0 0 = 0"
    by (cases e) (simp_all add: load_u16_def)
  then show "arp_op (arphdr (arp_packet_of e example_stray_buf)) = 0"
    by (simp add: arp_packet_of_def arp_hdr_of_def d)
  have "arp_spa (arphdr (arp_packet_of e example_stray_buf)) = replicate 4 0"
    by (simp add: arp_packet_of_def arp_hdr_of_def d)
  then show "arp_spa (arphdr (arp_packet_of e example_stray_buf)) = [0, 0, 0, 0]"
    by (simp only: r4)
  have "arp_sha (arphdr (arp_packet_of e example_stray_buf)) = replicate 6 0"
    by (simp add: arp_packet_of_def arp_hdr_of_def d)
  then show "arp_sha (arphdr (arp_packet_of e example_stray_buf)) = [0, 0, 0, 0, 0, 0]"
    by (simp only: r6)
qed


text \<open>
  C7. Every transport failure is fatal at once. When \<^verbatim>\<open>open\<close> or one of the two \<^verbatim>\<open>ioctl\<close>
  calls fails, the run is \<^verbatim>\<open>perror\<close> with the tag of that call and exit status 1, nothing
  else. When a \<^verbatim>\<open>read\<close> fails, in either mode, the run is the run up to that read (the
  process then blocked in it), followed by \<^verbatim>\<open>perror("read packet")\<close> and exit status 1;
  what the device would have delivered later plays no part. When a \<^verbatim>\<open>write\<close> fails, in the
  responder or in the requester, the process exits with status 1 after
  \<^verbatim>\<open>perror("write packet")\<close>, the failed frame being the last one handed to \<^verbatim>\<open>write\<close>:
  no retry, no further step.
\<close>

theorem transport_failure_is_fatal:
  "(open_ret w < 0 \<longrightarrow> main_prog e mode w = die ''tap open'' proc_init) \<and>
   (0 \<le> open_ret w \<and> tunsetiff_ret w < 0 \<longrightarrow> main_prog e mode w = die ''tap ioctl'' proc_init) \<and>
   (0 \<le> open_ret w \<and> 0 \<le> tunsetiff_ret w \<and> hwaddr_ret w < 0 \<longrightarrow>
      main_prog e mode w = die ''tap hwaddr'' proc_init) \<and>
   (reads w = pre @ r # post \<and> status (main_prog e mode (w\<lparr>reads := pre\<rparr>)) = Waiting \<and>
    read_ret r < 0 \<longrightarrow>
      main_prog e mode w =
        die ''read packet'' ((main_prog e mode (w\<lparr>reads := pre\<rparr>))\<lparr>status := Running\<rparr>)) \<and>
   (mode = 0 \<and> reads w = pre @ r # post \<and>
    status (main_prog e mode (w\<lparr>reads := pre\<rparr>)) = Waiting \<and> 0 \<le> read_ret r \<and> is_arp e r \<and>
    write_fails w (length (tx (main_prog e mode (w\<lparr>reads := pre\<rparr>)))) \<longrightarrow>
      status (main_prog e mode w) = Exited 1 \<and>
      stderr (main_prog e mode w) =
        stderr (main_prog e mode (w\<lparr>reads := pre\<rparr>)) @ [''write packet''] \<and>
      tx (main_prog e mode w) =
        tx (main_prog e mode (w\<lparr>reads := pre\<rparr>)) @
        [arp_packet_bytes e (mk_rep_packet e (sa_data w) (arp_packet_of e (read_buf r)))]) \<and>
   (mode \<noteq> 0 \<and> 0 \<le> open_ret w \<and> 0 \<le> tunsetiff_ret w \<and> 0 \<le> hwaddr_ret w \<and>
    write_fails w 0 \<longrightarrow>
      status (main_prog e mode w) = Exited 1 \<and>
      stderr (main_prog e mode w) = [''write packet''] \<and>
      tx (main_prog e mode w) = [arp_packet_bytes e (mk_req_packet e (sa_data w) (stack w))]) \<and>
   status (die tag s) = Exited 1 \<and> stderr (die tag s) = stderr s @ [tag] \<and>
   tx (die tag s) = tx s \<and> stdout (die tag s) = stdout s \<and> num (die tag s) = num s"
proof -
  have attach: "open_ret w < 0 \<longrightarrow> main_prog e mode w = die ''tap open'' proc_init"
    "0 \<le> open_ret w \<and> tunsetiff_ret w < 0 \<longrightarrow> main_prog e mode w = die ''tap ioctl'' proc_init"
    "0 \<le> open_ret w \<and> 0 \<le> tunsetiff_ret w \<and> hwaddr_ret w < 0 \<longrightarrow>
       main_prog e mode w = die ''tap hwaddr'' proc_init"
    by (simp_all add: main_prog_def Let_def)
  have rd: "main_prog e mode w =
      die ''read packet'' ((main_prog e mode (w\<lparr>reads := pre\<rparr>))\<lparr>status := Running\<rparr>)"
    if "reads w = pre @ r # post" and "status (main_prog e mode (w\<lparr>reads := pre\<rparr>)) = Waiting"
      and "read_ret r < 0"
    using that(3)
    by (simp add: main_prog_append [OF that(1,2)] iter_read_error Let_def die_fields)
  have wr: "status (main_prog e mode w) = Exited 1 \<and>
      stderr (main_prog e mode w) =
        stderr (main_prog e mode (w\<lparr>reads := pre\<rparr>)) @ [''write packet''] \<and>
      tx (main_prog e mode w) =
        tx (main_prog e mode (w\<lparr>reads := pre\<rparr>)) @
        [arp_packet_bytes e (mk_rep_packet e (sa_data w) (arp_packet_of e (read_buf r)))]"
    if "mode = 0" and "reads w = pre @ r # post"
      and "status (main_prog e mode (w\<lparr>reads := pre\<rparr>)) = Waiting"
      and "0 \<le> read_ret r" and "is_arp e r"
      and "write_fails w (length (tx (main_prog e mode (w\<lparr>reads := pre\<rparr>))))"
  proof -
    from main_prog_append [OF that(2,3)] that(1)
    have eq: "main_prog e mode w =
        wait_n_reply_loop e (write_fails w) (sa_data w) (r # post)
          ((main_prog e mode (w\<lparr>reads := pre\<rparr>))\<lparr>status := Running\<rparr>)"
      by simp
    show ?thesis
      unfolding eq using that(4,5,6)
      by (simp add: Let_def iter_arp_status iter_arp_stderr iter_arp_tx)
  qed
  have rq: "status (main_prog e mode w) = Exited 1 \<and>
      stderr (main_prog e mode w) = [''write packet''] \<and>
      tx (main_prog e mode w) = [arp_packet_bytes e (mk_req_packet e (sa_data w) (stack w))]"
    if "mode \<noteq> 0" and "0 \<le> open_ret w" and "0 \<le> tunsetiff_ret w" and "0 \<le> hwaddr_ret w"
      and "write_fails w 0"
    using req_n_wait_write_fails [of "write_fails w" "print_mac (sa_data w) proc_init" e "sa_data w" "stack w" "reads w"] that(5)
    by (simp add: main_prog_requester [OF that(2,3,4,1)] io_fields proc_init_def)
  have d: "status (die tag s) = Exited 1 \<and> stderr (die tag s) = stderr s @ [tag] \<and>
      tx (die tag s) = tx s \<and> stdout (die tag s) = stdout s \<and> num (die tag s) = num s"
    by (simp add: die_fields)
  from attach rd wr rq d show ?thesis
    by blast
qed


theorem transport_failure_is_fatal_witness:
  "main_prog LittleEndian MODE ((example_world LittleEndian [])\<lparr>open_ret := - 1\<rparr>) =
     \<lparr>stdout = [], stderr = [''tap open''], tx = [], num = 0, status = Exited 1\<rparr> \<and>
   main_prog LittleEndian MODE ((example_world LittleEndian [])\<lparr>tunsetiff_ret := - 1\<rparr>) =
     \<lparr>stdout = [], stderr = [''tap ioctl''], tx = [], num = 0, status = Exited 1\<rparr> \<and>
   main_prog LittleEndian MODE ((example_world LittleEndian [])\<lparr>hwaddr_ret := - 1\<rparr>) =
     \<lparr>stdout = [], stderr = [''tap hwaddr''], tx = [], num = 0, status = Exited 1\<rparr> \<and>
   status (main_prog LittleEndian MODE
     (example_world LittleEndian [ReadRet (- 1) example_ip_buf, ReadRet 42 example_stray_buf])) = Exited 1 \<and>
   stderr (main_prog LittleEndian MODE
     (example_world LittleEndian [ReadRet (- 1) example_ip_buf, ReadRet 42 example_stray_buf])) = [''read packet''] \<and>
   tx (main_prog LittleEndian MODE
     (example_world LittleEndian [ReadRet (- 1) example_ip_buf, ReadRet 42 example_stray_buf])) = [] \<and>
   status (main_prog LittleEndian MODE
     ((example_world LittleEndian [ReadRet 42 example_stray_buf, ReadRet 42 example_stray_buf])
        \<lparr>write_fails := write_bad\<rparr>)) = Exited 1 \<and>
   stderr (main_prog LittleEndian MODE
     ((example_world LittleEndian [ReadRet 42 example_stray_buf, ReadRet 42 example_stray_buf])
        \<lparr>write_fails := write_bad\<rparr>)) = [''write packet''] \<and>
   length (tx (main_prog LittleEndian MODE
     ((example_world LittleEndian [ReadRet 42 example_stray_buf, ReadRet 42 example_stray_buf])
        \<lparr>write_fails := write_bad\<rparr>))) = 1 \<and>
   status (main_prog LittleEndian 1
     ((example_world LittleEndian [ReadRet 42 example_stray_buf])\<lparr>write_fails := write_bad\<rparr>)) = Exited 1 \<and>
   stderr (main_prog LittleEndian 1
     ((example_world LittleEndian [ReadRet 42 example_stray_buf])\<lparr>write_fails := write_bad\<rparr>)) = [''write packet''] \<and>
   length (tx (main_prog LittleEndian 1
     ((example_world LittleEndian [ReadRet 42 example_stray_buf])\<lparr>write_fails := write_bad\<rparr>))) = 1"
proof -
  let ?W1 = "(example_world LittleEndian [])\<lparr>open_ret := - 1\<rparr>"
  let ?W2 = "(example_world LittleEndian [])\<lparr>tunsetiff_ret := - 1\<rparr>"
  let ?W3 = "(example_world LittleEndian [])\<lparr>hwaddr_ret := - 1\<rparr>"
  let ?W4 = "example_world LittleEndian [ReadRet (- 1) example_ip_buf, ReadRet 42 example_stray_buf]"
  let ?W5 = "(example_world LittleEndian [ReadRet 42 example_stray_buf, ReadRet 42 example_stray_buf])
        \<lparr>write_fails := write_bad\<rparr>"
  let ?W6 = "(example_world LittleEndian [ReadRet 42 example_stray_buf])\<lparr>write_fails := write_bad\<rparr>"
  have c1: "main_prog LittleEndian MODE ?W1 = die ''tap open'' proc_init"
    using transport_failure_is_fatal [where w = "?W1" and e = LittleEndian and mode = MODE]
    by (simp add: example_world_sel)
  have c2: "main_prog LittleEndian MODE ?W2 = die ''tap ioctl'' proc_init"
    using transport_failure_is_fatal [where w = "?W2" and e = LittleEndian and mode = MODE]
    by (simp add: example_world_sel)
  have c3: "main_prog LittleEndian MODE ?W3 = die ''tap hwaddr'' proc_init"
    using transport_failure_is_fatal [where w = "?W3" and e = LittleEndian and mode = MODE]
    by (simp add: example_world_sel)
  have b4: "status (main_prog LittleEndian 0 (?W4\<lparr>reads := []\<rparr>)) = Waiting \<and>
      tx (main_prog LittleEndian 0 (?W4\<lparr>reads := []\<rparr>)) = [] \<and>
      stderr (main_prog LittleEndian 0 (?W4\<lparr>reads := []\<rparr>)) = []"
    by (rule responder_blocked_at_start) (simp_all add: example_world_sel)
  have c4: "main_prog LittleEndian MODE ?W4 =
      die ''read packet'' ((main_prog LittleEndian 0 (?W4\<lparr>reads := []\<rparr>))\<lparr>status := Running\<rparr>)"
    using transport_failure_is_fatal [where w = "?W4" and e = LittleEndian and mode = MODE
        and pre = "[]" and r = "ReadRet (- 1) example_ip_buf" and post = "[ReadRet 42 example_stray_buf]"] b4
    by (simp add: example_world_sel MODE_def)
  have b5: "status (main_prog LittleEndian 0 (?W5\<lparr>reads := []\<rparr>)) = Waiting \<and>
      tx (main_prog LittleEndian 0 (?W5\<lparr>reads := []\<rparr>)) = [] \<and>
      stderr (main_prog LittleEndian 0 (?W5\<lparr>reads := []\<rparr>)) = []"
    by (rule responder_blocked_at_start) (simp_all add: example_world_sel)
  have c5: "status (main_prog LittleEndian MODE ?W5) = Exited 1 \<and>
      stderr (main_prog LittleEndian MODE ?W5) = [''write packet''] \<and>
      length (tx (main_prog LittleEndian MODE ?W5)) = 1"
    using transport_failure_is_fatal [where w = "?W5" and e = LittleEndian and mode = MODE
        and pre = "[]" and r = "ReadRet 42 example_stray_buf" and post = "[ReadRet 42 example_stray_buf]"] b5
    by (simp add: example_world_sel MODE_def write_bad_def is_arp_example_stray_buf)
  have c6: "status (main_prog LittleEndian 1 ?W6) = Exited 1 \<and>
      stderr (main_prog LittleEndian 1 ?W6) = [''write packet''] \<and>
      length (tx (main_prog LittleEndian 1 ?W6)) = 1"
    using transport_failure_is_fatal [where w = "?W6" and e = LittleEndian and mode = 1]
    by (simp add: example_world_sel write_bad_def)
  from c1 c2 c3 c4 b4 c5 c6 show ?thesis
    by (simp add: die_def proc_init_def)
qed

lemma main_prog_exit0_iff:
  "status (main_prog e mode w) = Exited 0 \<longleftrightarrow>
     mode \<noteq> 0 \<and> 0 \<le> open_ret w \<and> 0 \<le> tunsetiff_ret w \<and> 0 \<le> hwaddr_ret w \<and>
     \<not> write_fails w 0 \<and>
     (\<exists>pre r post. reads w = pre @ r # post \<and>
        (\<forall>p \<in> set pre. 0 \<le> read_ret p \<and> \<not> is_arp e p) \<and> 0 \<le> read_ret r \<and> is_arp e r)"
proof (cases "0 \<le> open_ret w \<and> 0 \<le> tunsetiff_ret w \<and> 0 \<le> hwaddr_ret w")
  case False
  then have "open_ret w < 0 \<or> tunsetiff_ret w < 0 \<or> hwaddr_ret w < 0"
    by auto
  from main_prog_attach_failed [OF this, of e mode] False show ?thesis
    by auto
next
  case True
  then have ok: "0 \<le> open_ret w" "0 \<le> tunsetiff_ret w" "0 \<le> hwaddr_ret w"
    by simp_all
  show ?thesis
  proof (cases "mode = 0")
    case m: True
    from wait_n_reply_status [OF status_start, of e "write_fails w" "sa_data w" "reads w" "sa_data w"]
    show ?thesis
      by (auto simp: m main_prog_responder [OF ok])
  next
    case m: False
    let ?R = "req_n_wait e (write_fails w) (sa_data w) (stack w) (reads w) (print_mac (sa_data w) proc_init)"
    have tx0: "length (tx (print_mac (sa_data w) proc_init)) = 0"
      by (simp add: io_fields proc_init_def)
    from req_n_wait_status [OF status_start, of e "write_fails w" "sa_data w" "stack w" "reads w" "sa_data w"]
    have "status (main_prog e mode w) = Exited 0 \<longleftrightarrow> status ?R = Running"
      by (auto simp: main_prog_requester [OF ok m])
    with req_n_wait_returns_iff [OF status_start, of e "write_fails w" "sa_data w" "stack w" "reads w" "sa_data w"]
      True m show ?thesis
      by (simp add: tx0)
  qed
qed


text \<open>
  C8. The program ends with exit status 0 exactly when it runs in requester mode, the device
  is attached, the request is written, and the reads deliver, after any number of frames that
  are not ARP, a frame whose Ethernet protocol field is ARP. Nothing else about that frame
  (opcode, sender, target) enters the condition, and no run in responder mode ends normally.
  In the loop, a frame that is not ARP is passed over with the state unchanged; the first
  frame that is ARP is rendered and ends the loop, whatever the reads after it would deliver.
\<close>

theorem requester_normal_termination:
  "(status (main_prog e mode w) = Exited 0 \<longleftrightarrow>
     mode \<noteq> 0 \<and> 0 \<le> open_ret w \<and> 0 \<le> tunsetiff_ret w \<and> 0 \<le> hwaddr_ret w \<and>
     \<not> write_fails w 0 \<and>
     (\<exists>pre r post. reads w = pre @ r # post \<and>
        (\<forall>p \<in> set pre. 0 \<le> read_ret p \<and> \<not> is_arp e p) \<and> 0 \<le> read_ret r \<and> is_arp e r)) \<and>
   (0 \<le> read_ret a \<and> \<not> is_arp e a \<longrightarrow> req_n_wait_loop e (a # rs) s = req_n_wait_loop e rs s) \<and>
   (0 \<le> read_ret a \<and> is_arp e a \<longrightarrow>
      req_n_wait_loop e (a # rs) s =
        print_arp_packet e (arp_packet_of e (read_buf a))
          (printf ''Packet ARP Reply 0.2\<newline>'' [] s))"
proof -
  have "0 \<le> read_ret a \<and> \<not> is_arp e a \<longrightarrow>
      req_n_wait_loop e (a # rs) s = req_n_wait_loop e rs s"
    by (simp add: is_arp_def)
  moreover have "0 \<le> read_ret a \<and> is_arp e a \<longrightarrow>
      req_n_wait_loop e (a # rs) s =
        print_arp_packet e (arp_packet_of e (read_buf a))
          (printf ''Packet ARP Reply 0.2\<newline>'' [] s)"
    by (simp add: is_arp_def Let_def)
  ultimately show ?thesis
    using main_prog_exit0_iff [of e mode w] by blast
qed

theorem requester_normal_termination_witness:
  "status (main_prog BigEndian 1 (example_world BigEndian
      [ReadRet 60 example_ip_buf, ReadRet 42 example_stray_buf, ReadRet (- 1) example_ip_buf])) = Exited 0 \<and>
   be16_to_cpu BigEndian (arp_op (arphdr (arp_packet_of BigEndian example_stray_buf))) \<noteq> ARPOP_REPLY \<and>
   arp_spa (arphdr (arp_packet_of BigEndian example_stray_buf)) \<noteq> [172, 16, 60, 157] \<and>
   status (main_prog BigEndian MODE (example_world BigEndian
      [ReadRet 60 example_ip_buf, ReadRet 42 example_stray_buf, ReadRet (- 1) example_ip_buf])) \<noteq> Exited 0 \<and>
   req_n_wait_loop BigEndian [ReadRet 60 example_ip_buf] proc_init = proc_init\<lparr>status := Waiting\<rparr> \<and>
   status (req_n_wait_loop BigEndian [ReadRet 42 example_stray_buf, ReadRet (- 1) example_ip_buf] proc_init)
     = Running"
proof -
  let ?rs = "[ReadRet 60 example_ip_buf, ReadRet 42 example_stray_buf, ReadRet (- 1) example_ip_buf]"
  have split: "?rs = [ReadRet 60 example_ip_buf] @ ReadRet 42 example_stray_buf # [ReadRet (- 1) example_ip_buf] \<and>
      (\<forall>p \<in> set [ReadRet 60 example_ip_buf]. 0 \<le> read_ret p \<and> \<not> is_arp BigEndian p) \<and>
      0 \<le> read_ret (ReadRet 42 example_stray_buf) \<and> is_arp BigEndian (ReadRet 42 example_stray_buf)"
    by (simp add: not_is_arp_example_ip_buf is_arp_example_stray_buf)
  then have ex: "\<exists>pre r post. ?rs = pre @ r # post \<and>
      (\<forall>p \<in> set pre. 0 \<le> read_ret p \<and> \<not> is_arp BigEndian p) \<and> 0 \<le> read_ret r \<and> is_arp BigEndian r"
    by blast
  have a: "status (main_prog BigEndian 1 (example_world BigEndian ?rs)) = Exited 0"
    using requester_normal_termination [of BigEndian 1 "example_world BigEndian ?rs"] ex
    by (simp add: example_world_sel write_ok_def)
  have b: "status (main_prog BigEndian MODE (example_world BigEndian ?rs)) \<noteq> Exited 0"
    using requester_normal_termination [of BigEndian MODE "example_world BigEndian ?rs"]
    by (simp add: MODE_def)
  have f: "req_n_wait_loop BigEndian [ReadRet 60 example_ip_buf] proc_init = proc_init\<lparr>status := Waiting\<rparr>"
    using requester_normal_termination [where e = BigEndian and a = "ReadRet 60 example_ip_buf"
        and rs = "[]" and s = proc_init]
    by (simp add: not_is_arp_example_ip_buf)
  have g: "status (req_n_wait_loop BigEndian [ReadRet 42 example_stray_buf, ReadRet (- 1) example_ip_buf]
      proc_init) = Running"
    using requester_normal_termination [where e = BigEndian and a = "ReadRet 42 example_stray_buf"
        and rs = "[ReadRet (- 1) example_ip_buf]" and s = proc_init]
    by (simp add: is_arp_example_stray_buf io_fields proc_init_def)
  have c: "be16_to_cpu BigEndian (arp_op (arphdr (arp_packet_of BigEndian example_stray_buf))) \<noteq> ARPOP_REPLY"
    by (simp add: example_stray_frame be16_to_cpu_def ARPOP_REPLY_def)
  have d: "arp_spa (arphdr (arp_packet_of BigEndian example_stray_buf)) \<noteq> [172, 16, 60, 157]"
    by (simp add: example_stray_frame)
  from a b c d f g show ?thesis
    by blast
qed

end
